theory Spec2Isabelle
  imports Main
begin

section \<open>Repository records\<close>

text \<open>
  Modelled from the spec: the constants of \<^verbatim>\<open>pyanaconda.core.constants\<close> are not
  under src/. They are Python strings; the spec names the three url types BASEURL,
  MIRRORLIST and METALINK and the distinguished origin TREEINFO.
\<close>

definition URL_TYPE_BASEURL :: string where
  "URL_TYPE_BASEURL = ''BASEURL''"

definition URL_TYPE_MIRRORLIST :: string where
  "URL_TYPE_MIRRORLIST = ''MIRRORLIST''"

definition URL_TYPE_METALINK :: string where
  "URL_TYPE_METALINK = ''METALINK''"

definition URL_TYPES :: "string list" where
  "URL_TYPES = [URL_TYPE_BASEURL, URL_TYPE_MIRRORLIST, URL_TYPE_METALINK]"

definition REPO_ORIGIN_TREEINFO :: string where
  "REPO_ORIGIN_TREEINFO = ''TREEINFO''"

text \<open>
  Modelled from the spec: the classes \<^verbatim>\<open>RepoConfigurationData\<close> and
  \<^verbatim>\<open>SSLConfigurationData\<close> (\<^verbatim>\<open>pyanaconda.modules.common.structures.payload\<close>) are not
  under src/. The fields are those of section 3 of the spec. \<^verbatim>\<open>type\<close> and
  \<^verbatim>\<open>origin\<close> hold the string constants above. \<^verbatim>\<open>proxy\<close> is an optional string:
  \<^verbatim>\<open>process_kickstart\<close> stores the kickstart field in it as it is, which is
  \<^verbatim>\<open>None\<close> when the kickstart file names no proxy.
\<close>

record SSLConfigurationData =
  ca_cert_path :: string
  client_cert_path :: string
  client_key_path :: string

record RepoConfigurationData =
  name :: string
  url :: string
  type :: string
  origin :: string
  enabled :: bool
  installation_enabled :: bool
  proxy :: "string option"
  ssl_verification_enabled :: bool
  ssl_configuration :: SSLConfigurationData

text \<open>
  Repository records are Python objects: a list holds references, and an assignment to a
  field is seen through every reference to the object. An object is an address, the heap
  gives the state of each object.
\<close>

type_synonym addr = nat

type_synonym heap = "addr \<Rightarrow> RepoConfigurationData"

section \<open>Updating the treeinfo repositories\<close>

text \<open>
  \<^verbatim>\<open>update_treeinfo_repositories(repositories, treeinfo_repositories)\<close> of
  \<^verbatim>\<open>repositories.py\<close>, statement by statement. The set comprehensions are sets of
  strings; \<^verbatim>\<open>r.url\<close> as a condition is true for a non-empty string.
\<close>

definition disabled_names :: "heap \<Rightarrow> addr list \<Rightarrow> string set" where
  "disabled_names h repositories =
     set [name (h r). r \<leftarrow> repositories,
          origin (h r) = REPO_ORIGIN_TREEINFO \<and> \<not> enabled (h r)]"

text \<open>
  The loop \<^verbatim>\<open>for r in treeinfo_repositories: if r.name in disabled: r.enabled = False\<close>
  assigns to the objects of the batch in place.
\<close>

fun disable_treeinfo_repositories :: "string set \<Rightarrow> addr list \<Rightarrow> heap \<Rightarrow> heap" where
  "disable_treeinfo_repositories disabled [] h = h"
| "disable_treeinfo_repositories disabled (r # rs) h =
     disable_treeinfo_repositories disabled rs
       (if name (h r) \<in> disabled then h(r := (h r)\<lparr>enabled := False\<rparr>) else h)"

definition existing_urls :: "heap \<Rightarrow> addr list \<Rightarrow> string set" where
  "existing_urls h repositories =
     set [url (h r). r \<leftarrow> repositories,
          origin (h r) \<noteq> REPO_ORIGIN_TREEINFO \<and> url (h r) \<noteq> '''']"

definition update_treeinfo_repositories ::
  "heap \<Rightarrow> addr list \<Rightarrow> addr list \<Rightarrow> heap \<times> addr list" where
  "update_treeinfo_repositories h repositories treeinfo_repositories =
     (let disabled = disabled_names h repositories;
          h1 = disable_treeinfo_repositories disabled treeinfo_repositories h;
          existing = existing_urls h1 repositories;
          treeinfo_repositories1 = [r \<leftarrow> treeinfo_repositories. url (h1 r) \<notin> existing];
          repositories1 = [r \<leftarrow> repositories. origin (h1 r) \<noteq> REPO_ORIGIN_TREEINFO]
      in (h1, repositories1 @ treeinfo_repositories1))"

text \<open>The list of record states that a list of references shows in a heap.\<close>

definition records :: "heap \<Rightarrow> addr list \<Rightarrow> RepoConfigurationData list" where
  "records h rs = map h rs"

section \<open>Properties of the update\<close>

lemma disable_treeinfo_repositories_apply:
  "disable_treeinfo_repositories d ts h r =
     (if r \<in> set ts \<and> name (h r) \<in> d then (h r)\<lparr>enabled := False\<rparr> else h r)"
proof (induction ts arbitrary: h)
  case Nil
  show ?case by simp
next
  case (Cons t ts)
  show ?case by (auto simp: Cons.IH)
qed

lemma disable_treeinfo_repositories_name [simp]:
  "name (disable_treeinfo_repositories d ts h r) = name (h r)"
  by (simp add: disable_treeinfo_repositories_apply)

lemma disable_treeinfo_repositories_url [simp]:
  "url (disable_treeinfo_repositories d ts h r) = url (h r)"
  by (simp add: disable_treeinfo_repositories_apply)

lemma disable_treeinfo_repositories_origin [simp]:
  "origin (disable_treeinfo_repositories d ts h r) = origin (h r)"
  by (simp add: disable_treeinfo_repositories_apply)

lemma existing_urls_disable [simp]:
  "existing_urls (disable_treeinfo_repositories d ts h) rs = existing_urls h rs"
  by (simp add: existing_urls_def)

lemma update_treeinfo_repositories_list:
  "snd (update_treeinfo_repositories h L T) =
     [r \<leftarrow> L. origin (h r) \<noteq> REPO_ORIGIN_TREEINFO] @
     [r \<leftarrow> T. url (h r) \<notin> existing_urls h L]"
  by (simp add: update_treeinfo_repositories_def Let_def)

lemma update_treeinfo_repositories_heap:
  "fst (update_treeinfo_repositories h L T) r =
     (if r \<in> set T \<and> name (h r) \<in> disabled_names h L
      then (h r)\<lparr>enabled := False\<rparr> else h r)"
  by (simp add: update_treeinfo_repositories_def Let_def disable_treeinfo_repositories_apply)

lemma existing_urls_mem:
  "u \<in> existing_urls h rs \<longleftrightarrow>
     (\<exists>r \<in> set rs. origin (h r) \<noteq> REPO_ORIGIN_TREEINFO \<and> url (h r) \<noteq> '''' \<and> url (h r) = u)"
  by (auto simp: existing_urls_def)

lemma disabled_names_mem:
  "n \<in> disabled_names h rs \<longleftrightarrow>
     (\<exists>r \<in> set rs. origin (h r) = REPO_ORIGIN_TREEINFO \<and> \<not> enabled (h r) \<and> name (h r) = n)"
  by (auto simp: disabled_names_def)

lemma existing_urls_carried:
  assumes "\<forall>t \<in> set K. origin (h t) = REPO_ORIGIN_TREEINFO"
  shows "existing_urls h ([r \<leftarrow> L. origin (h r) \<noteq> REPO_ORIGIN_TREEINFO] @ K) = existing_urls h L"
  using assms by (auto simp: existing_urls_mem)

lemma update_treeinfo_repositories_Nil:
  "update_treeinfo_repositories h [] T = (h, T)"
proof -
  have "disable_treeinfo_repositories {} T h = h"
    by (rule ext) (simp add: disable_treeinfo_repositories_apply)
  then show ?thesis
    by (simp add: update_treeinfo_repositories_def disabled_names_def existing_urls_def)
qed

subsection \<open>Example heap\<close>

definition example_repo :: RepoConfigurationData where
  "example_repo =
     \<lparr>name = ''base'', url = ''http://a'', type = URL_TYPE_BASEURL, origin = ''USER'',
      enabled = True, installation_enabled = True, proxy = None,
      ssl_verification_enabled = True,
      ssl_configuration = \<lparr>ca_cert_path = '''', client_cert_path = '''', client_key_path = ''''\<rparr>\<rparr>"

definition example_treeinfo :: "string \<Rightarrow> string \<Rightarrow> bool \<Rightarrow> RepoConfigurationData" where
  "example_treeinfo n u e =
     example_repo\<lparr>name := n, url := u, origin := REPO_ORIGIN_TREEINFO, enabled := e,
       installation_enabled := False\<rparr>"

definition example_heap :: heap where
  "example_heap =
     (\<lambda>_. example_repo)
       (2 := example_treeinfo ''AppStream'' ''http://new/app'' True,
        3 := example_treeinfo ''BaseOS'' ''http://a'' True,
        4 := example_treeinfo ''CRB'' ''http://new/crb'' True,
        5 := example_treeinfo ''AppStream'' ''http://a'' True,
        6 := example_treeinfo ''AppStream'' ''http://new/app2'' False,
        7 := example_treeinfo ''AppStream'' ''http://old/app'' False)"

lemma example_heap_fields:
  "name (example_heap 0) = ''base''"
  "url (example_heap 0) = ''http://a''"
  "origin (example_heap 0) = ''USER''"
  "enabled (example_heap 0) = True"
  "name (example_heap 2) = ''AppStream''"
  "url (example_heap 2) = ''http://new/app''"
  "origin (example_heap 2) = ''TREEINFO''"
  "enabled (example_heap 2) = True"
  "name (example_heap 3) = ''BaseOS''"
  "url (example_heap 3) = ''http://a''"
  "origin (example_heap 3) = ''TREEINFO''"
  "enabled (example_heap 3) = True"
  "name (example_heap 4) = ''CRB''"
  "url (example_heap 4) = ''http://new/crb''"
  "origin (example_heap 4) = ''TREEINFO''"
  "enabled (example_heap 4) = True"
  "name (example_heap 5) = ''AppStream''"
  "url (example_heap 5) = ''http://a''"
  "origin (example_heap 5) = ''TREEINFO''"
  "enabled (example_heap 5) = True"
  "name (example_heap 6) = ''AppStream''"
  "url (example_heap 6) = ''http://new/app2''"
  "origin (example_heap 6) = ''TREEINFO''"
  "enabled (example_heap 6) = False"
  "name (example_heap 7) = ''AppStream''"
  "url (example_heap 7) = ''http://old/app''"
  "origin (example_heap 7) = ''TREEINFO''"
  "enabled (example_heap 7) = False"
  by (simp_all add: example_heap_def example_treeinfo_def example_repo_def
      REPO_ORIGIN_TREEINFO_def)

lemma example_heap_0: "example_heap 0 = example_repo"
  by (simp add: example_heap_def)

lemma disable_changes_enabled:
  "x\<lparr>enabled := False\<rparr> = (x :: RepoConfigurationData) \<longleftrightarrow> \<not> enabled x"
proof
  assume "x\<lparr>enabled := False\<rparr> = x"
  then have "enabled (x\<lparr>enabled := False\<rparr>) = enabled x" by simp
  then show "\<not> enabled x" by simp
next
  assume "\<not> enabled x"
  then show "x\<lparr>enabled := False\<rparr> = x" by simp
qed

lemma example_existing_urls: "existing_urls example_heap [0, 7] = {''http://a''}"
  by (simp add: existing_urls_def example_heap_fields REPO_ORIGIN_TREEINFO_def)

lemma example_disabled_names: "disabled_names example_heap [0, 7] = {''AppStream''}"
  by (simp add: disabled_names_def example_heap_fields REPO_ORIGIN_TREEINFO_def)

lemmas example_simps =
  update_treeinfo_repositories_list update_treeinfo_repositories_heap
  example_existing_urls example_disabled_names example_heap_fields
  REPO_ORIGIN_TREEINFO_def existing_urls_def disabled_names_def records_def

subsection \<open>C1: the treeinfo repositories are replaced\<close>

text \<open>
  C1 (amended). For a batch \<open>T\<close> of records of origin TREEINFO, the returned list is the
  records of \<open>L\<close> whose origin is not TREEINFO, in their order, followed by the records of
  \<open>T\<close> whose url is not among the urls of the user's repositories, in their order. The
  records taken over from \<open>L\<close> are unchanged. A TREEINFO record of \<open>L\<close> that is not itself
  in \<open>T\<close> is not in the result, and the TREEINFO records of the result are exactly the
  surviving records of \<open>T\<close>: nothing of an earlier generation accumulates.
\<close>

theorem update_treeinfo_repositories_replaces:
  assumes "\<forall>t \<in> set T. origin (h t) = REPO_ORIGIN_TREEINFO"
  shows "snd (update_treeinfo_repositories h L T) =
           [r \<leftarrow> L. origin (h r) \<noteq> REPO_ORIGIN_TREEINFO] @
           [t \<leftarrow> T. url (h t) \<notin> existing_urls h L]
       \<and> (\<forall>r \<in> set L. origin (h r) \<noteq> REPO_ORIGIN_TREEINFO \<longrightarrow>
            fst (update_treeinfo_repositories h L T) r = h r)
       \<and> (\<forall>r \<in> set L. origin (h r) = REPO_ORIGIN_TREEINFO \<and> r \<notin> set T \<longrightarrow>
            r \<notin> set (snd (update_treeinfo_repositories h L T)))
       \<and> [r \<leftarrow> snd (update_treeinfo_repositories h L T).
            origin (fst (update_treeinfo_repositories h L T) r) = REPO_ORIGIN_TREEINFO] =
           [t \<leftarrow> T. url (h t) \<notin> existing_urls h L]"
proof (intro conjI)
  show "snd (update_treeinfo_repositories h L T) =
          [r \<leftarrow> L. origin (h r) \<noteq> REPO_ORIGIN_TREEINFO] @
          [t \<leftarrow> T. url (h t) \<notin> existing_urls h L]"
    by (rule update_treeinfo_repositories_list)
  show "\<forall>r \<in> set L. origin (h r) \<noteq> REPO_ORIGIN_TREEINFO \<longrightarrow>
          fst (update_treeinfo_repositories h L T) r = h r"
    using assms by (auto simp: update_treeinfo_repositories_heap)
  show "\<forall>r \<in> set L. origin (h r) = REPO_ORIGIN_TREEINFO \<and> r \<notin> set T \<longrightarrow>
          r \<notin> set (snd (update_treeinfo_repositories h L T))"
    by (simp add: update_treeinfo_repositories_list)
  have origin_kept: "origin (fst (update_treeinfo_repositories h L T) r) = origin (h r)" for r
    by (simp add: update_treeinfo_repositories_heap)
  have "[t \<leftarrow> T. url (h t) \<notin> existing_urls h L \<and> origin (h t) = REPO_ORIGIN_TREEINFO] =
        [t \<leftarrow> T. url (h t) \<notin> existing_urls h L]"
    using assms by (intro filter_cong) auto
  then show "[r \<leftarrow> snd (update_treeinfo_repositories h L T).
          origin (fst (update_treeinfo_repositories h L T) r) = REPO_ORIGIN_TREEINFO] =
        [t \<leftarrow> T. url (h t) \<notin> existing_urls h L]"
    by (simp add: update_treeinfo_repositories_list origin_kept)
qed

theorem update_treeinfo_repositories_replaces_witness:
  "origin (example_heap 2) = REPO_ORIGIN_TREEINFO
   \<and> origin (example_heap 3) = REPO_ORIGIN_TREEINFO
   \<and> origin (example_heap 4) = REPO_ORIGIN_TREEINFO
   \<and> snd (update_treeinfo_repositories example_heap [0, 7] [2, 3, 4]) = [0, 2, 4]
   \<and> fst (update_treeinfo_repositories example_heap [0, 7] [2, 3, 4]) 0 = example_heap 0
   \<and> 7 \<notin> set (snd (update_treeinfo_repositories example_heap [0, 7] [2, 3, 4]))
   \<and> [r \<leftarrow> snd (update_treeinfo_repositories example_heap [0, 7] [2, 3, 4]).
        origin (fst (update_treeinfo_repositories example_heap [0, 7] [2, 3, 4]) r) =
        REPO_ORIGIN_TREEINFO] = [2, 4]"
proof -
  have batch: "\<forall>t \<in> set [2, 3, 4]. origin (example_heap t) = REPO_ORIGIN_TREEINFO"
    by (simp add: example_simps)
  have urls: "existing_urls example_heap [0, 7] = {''http://a''}"
    by (simp add: example_simps)
  show ?thesis
    using update_treeinfo_repositories_replaces [OF batch, of "[0, 7]"] batch
    by (simp add: example_simps)
qed

text \<open>
  The claim as stated says that no TREEINFO record of \<open>L\<close> is in the result. A record that
  is in \<open>L\<close> and in the batch is: this is the second pass of
  \<^verbatim>\<open>update(update(L, T), T)\<close>, where the list holds the records of \<open>T\<close> already.
\<close>

theorem treeinfo_record_of_batch_stays:
  "origin (example_heap 2) = REPO_ORIGIN_TREEINFO
   \<and> 2 \<in> set [0, 2 :: addr]
   \<and> 2 \<in> set (snd (update_treeinfo_repositories example_heap [0, 2] [2]))"
  by (simp add: example_simps)

subsection \<open>C2: disabled treeinfo repositories stay disabled\<close>

text \<open>
  C2 (amended). A record of \<open>T\<close> whose name is the name of a disabled TREEINFO record of
  \<open>L\<close> has \<open>enabled\<close> forced to false and is otherwise unchanged; a record of \<open>T\<close>
  whose name is not in that set is unchanged. The record is in the result when its url is
  not the url of a user's repository (or when it is itself a user's repository of \<open>L\<close>).
\<close>

theorem disabled_treeinfo_repositories_stay_disabled:
  assumes "t \<in> set T"
  shows "(name (h t) \<in> disabled_names h L \<longrightarrow>
            fst (update_treeinfo_repositories h L T) t = (h t)\<lparr>enabled := False\<rparr>
          \<and> \<not> enabled (fst (update_treeinfo_repositories h L T) t))
       \<and> (name (h t) \<notin> disabled_names h L \<longrightarrow>
            fst (update_treeinfo_repositories h L T) t = h t)
       \<and> (t \<in> set (snd (update_treeinfo_repositories h L T)) \<longleftrightarrow>
            url (h t) \<notin> existing_urls h L
            \<or> (t \<in> set L \<and> origin (h t) \<noteq> REPO_ORIGIN_TREEINFO))"
  using assms
  by (auto simp: update_treeinfo_repositories_heap update_treeinfo_repositories_list)

theorem disabled_treeinfo_repositories_stay_disabled_witness:
  "2 \<in> set [2, 3, 4 :: addr]
   \<and> name (example_heap 2) \<in> disabled_names example_heap [0, 7]
   \<and> enabled (example_heap 2)
   \<and> \<not> enabled (fst (update_treeinfo_repositories example_heap [0, 7] [2, 3, 4]) 2)
   \<and> 2 \<in> set (snd (update_treeinfo_repositories example_heap [0, 7] [2, 3, 4]))
   \<and> name (example_heap 4) \<notin> disabled_names example_heap [0, 7]
   \<and> fst (update_treeinfo_repositories example_heap [0, 7] [2, 3, 4]) 4 = example_heap 4"
proof -
  have names: "disabled_names example_heap [0, 7] = {''AppStream''}"
    by (simp add: example_simps)
  have urls: "existing_urls example_heap [0, 7] = {''http://a''}"
    by (simp add: example_simps)
  have two: "name (example_heap 2) = ''AppStream'' \<and> url (example_heap 2) = ''http://new/app''
      \<and> enabled (example_heap 2)"
    by (simp add: example_simps)
  have four: "name (example_heap 4) = ''CRB''"
    by (simp add: example_simps)
  show ?thesis
    using disabled_treeinfo_repositories_stay_disabled [of 2 "[2, 3, 4]" example_heap "[0, 7]"]
      disabled_treeinfo_repositories_stay_disabled [of 4 "[2, 3, 4]" example_heap "[0, 7]"]
    by (simp add: example_simps)
qed

text \<open>
  The claim as stated says that the record appears in the result. Record 5 has the name of
  the disabled TREEINFO record 7 and the url of the user's repository 0: it is dropped.
\<close>

theorem disabled_treeinfo_repository_dropped:
  "5 \<in> set [5 :: addr]
   \<and> origin (example_heap 5) = REPO_ORIGIN_TREEINFO
   \<and> origin (example_heap 7) = REPO_ORIGIN_TREEINFO \<and> \<not> enabled (example_heap 7)
   \<and> 7 \<in> set [0, 7 :: addr]
   \<and> name (example_heap 5) = name (example_heap 7)
   \<and> 5 \<notin> set (snd (update_treeinfo_repositories example_heap [0, 7] [5]))"
  by (simp add: example_simps)

subsection \<open>C3: no treeinfo repository with the url of a user's repository\<close>

text \<open>
  C3. For a batch \<open>T\<close> of records of origin TREEINFO: a record of \<open>T\<close> whose url is the
  non-empty url of a record of \<open>L\<close> of another origin is not in the result, and every other
  record of \<open>T\<close> is.
\<close>

theorem duplicate_url_treeinfo_repositories_excluded:
  assumes "\<forall>t \<in> set T. origin (h t) = REPO_ORIGIN_TREEINFO"
    and "t \<in> set T"
  shows "((\<exists>r \<in> set L. origin (h r) \<noteq> REPO_ORIGIN_TREEINFO \<and> url (h r) \<noteq> ''''
              \<and> url (h t) = url (h r)) \<longrightarrow>
            t \<notin> set (snd (update_treeinfo_repositories h L T)))
       \<and> (\<not> (\<exists>r \<in> set L. origin (h r) \<noteq> REPO_ORIGIN_TREEINFO \<and> url (h r) \<noteq> ''''
              \<and> url (h t) = url (h r)) \<longrightarrow>
            t \<in> set (snd (update_treeinfo_repositories h L T)))"
  using assms
  by (auto simp: update_treeinfo_repositories_list existing_urls_mem)

theorem duplicate_url_treeinfo_repositories_excluded_witness:
  "origin (example_heap 2) = REPO_ORIGIN_TREEINFO
   \<and> origin (example_heap 3) = REPO_ORIGIN_TREEINFO
   \<and> origin (example_heap 4) = REPO_ORIGIN_TREEINFO
   \<and> origin (example_heap 0) \<noteq> REPO_ORIGIN_TREEINFO
   \<and> url (example_heap 0) \<noteq> '''' \<and> url (example_heap 3) = url (example_heap 0)
   \<and> 3 \<notin> set (snd (update_treeinfo_repositories example_heap [0, 7] [2, 3, 4]))
   \<and> 4 \<in> set (snd (update_treeinfo_repositories example_heap [0, 7] [2, 3, 4]))"
proof -
  have batch: "\<forall>t \<in> set [2, 3, 4]. origin (example_heap t) = REPO_ORIGIN_TREEINFO"
    by (simp add: example_simps)
  have facts: "origin (example_heap 0) = ''USER'' \<and> url (example_heap 0) = ''http://a''
      \<and> origin (example_heap 7) = REPO_ORIGIN_TREEINFO
      \<and> url (example_heap 3) = ''http://a'' \<and> url (example_heap 4) = ''http://new/crb''"
    by (simp add: example_simps)
  show ?thesis
    using duplicate_url_treeinfo_repositories_excluded [OF batch, of 3 "[0, 7]"]
      duplicate_url_treeinfo_repositories_excluded [OF batch, of 4 "[0, 7]"] batch
    by (simp add: example_simps)
qed

subsection \<open>C4: a second pass\<close>

lemma second_pass_disables_nothing:
  assumes batch: "\<forall>t \<in> set T. origin (h t) = REPO_ORIGIN_TREEINFO"
    and flags: "\<forall>t \<in> set T. \<forall>t' \<in> set T. name (h t) = name (h t') \<longrightarrow> enabled (h t) = enabled (h t')"
    and t: "t \<in> set T"
    and d: "name (fst (update_treeinfo_repositories h L T) t) \<in>
           disabled_names (fst (update_treeinfo_repositories h L T))
             (snd (update_treeinfo_repositories h L T))"
  shows "\<not> enabled (fst (update_treeinfo_repositories h L T) t)"
proof -
  let ?h1 = "fst (update_treeinfo_repositories h L T)"
  from d obtain r where r: "r \<in> set (snd (update_treeinfo_repositories h L T))"
    and o: "origin (?h1 r) = REPO_ORIGIN_TREEINFO" and e: "\<not> enabled (?h1 r)"
    and n: "name (?h1 r) = name (?h1 t)"
    by (auto simp: disabled_names_mem)
  have names: "name (h r) = name (h t)"
    using n by (simp add: update_treeinfo_repositories_heap split: if_splits)
  have "origin (h r) = REPO_ORIGIN_TREEINFO"
    using o by (simp add: update_treeinfo_repositories_heap split: if_splits)
  with r have rT: "r \<in> set T"
    by (auto simp: update_treeinfo_repositories_list)
  show ?thesis
  proof (cases "name (h t) \<in> disabled_names h L")
    case True
    with t show ?thesis by (simp add: update_treeinfo_repositories_heap)
  next
    case False
    with names rT e have "\<not> enabled (h r)"
      by (simp add: update_treeinfo_repositories_heap)
    with flags rT t names have "\<not> enabled (h t)" by blast
    then show ?thesis by (simp add: update_treeinfo_repositories_heap)
  qed
qed

text \<open>
  C4 (amended). For a batch \<open>T\<close> of records of origin TREEINFO in which the records that
  share a name share the \<open>enabled\<close> flag (as when the names of \<open>T\<close> are distinct), a
  second pass with the same batch over the result of the first changes nothing: it returns
  the same heap and the same list.
\<close>

theorem update_treeinfo_repositories_idempotent:
  assumes batch: "\<forall>t \<in> set T. origin (h t) = REPO_ORIGIN_TREEINFO"
    and flags: "\<forall>t \<in> set T. \<forall>t' \<in> set T. name (h t) = name (h t') \<longrightarrow> enabled (h t) = enabled (h t')"
  shows "update_treeinfo_repositories (fst (update_treeinfo_repositories h L T))
           (snd (update_treeinfo_repositories h L T)) T =
         update_treeinfo_repositories h L T"
proof -
  let ?h1 = "fst (update_treeinfo_repositories h L T)"
  let ?R1 = "snd (update_treeinfo_repositories h L T)"
  let ?K = "[t \<leftarrow> T. url (h t) \<notin> existing_urls h L]"
  let ?N = "[r \<leftarrow> L. origin (h r) \<noteq> REPO_ORIGIN_TREEINFO]"
  have R1: "?R1 = ?N @ ?K" by (rule update_treeinfo_repositories_list)
  have origin1: "origin (?h1 r) = origin (h r)" for r
    by (simp add: update_treeinfo_repositories_heap)
  have url1: "url (?h1 r) = url (h r)" for r
    by (simp add: update_treeinfo_repositories_heap)
  have heap2: "fst (update_treeinfo_repositories ?h1 ?R1 T) = ?h1"
  proof
    fix r
    show "fst (update_treeinfo_repositories ?h1 ?R1 T) r = ?h1 r"
      using second_pass_disables_nothing [OF batch flags, of r L]
      by (simp add: update_treeinfo_repositories_heap [of ?h1])
  qed
  have urls: "existing_urls ?h1 ?R1 = existing_urls h L"
  proof -
    have "existing_urls ?h1 ?R1 = existing_urls h ?R1"
      by (simp add: existing_urls_def origin1 url1)
    also have "\<dots> = existing_urls h L"
      unfolding R1 using batch by (intro existing_urls_carried) simp
    finally show ?thesis .
  qed
  have "[r \<leftarrow> ?K. origin (h r) \<noteq> REPO_ORIGIN_TREEINFO] = []"
    using batch by (simp add: filter_empty_conv)
  then have kept: "[r \<leftarrow> ?R1. origin (?h1 r) \<noteq> REPO_ORIGIN_TREEINFO] = ?N"
    by (simp add: R1 origin1)
  have list2: "snd (update_treeinfo_repositories ?h1 ?R1 T) = ?R1"
    unfolding update_treeinfo_repositories_list [of ?h1] urls kept
    by (simp add: url1 R1)
  show ?thesis
    using heap2 list2 by (simp add: prod_eq_iff)
qed

theorem update_treeinfo_repositories_idempotent_witness:
  "origin (example_heap 2) = REPO_ORIGIN_TREEINFO
   \<and> origin (example_heap 3) = REPO_ORIGIN_TREEINFO
   \<and> origin (example_heap 4) = REPO_ORIGIN_TREEINFO
   \<and> name (example_heap 2) \<noteq> name (example_heap 3)
   \<and> name (example_heap 2) \<noteq> name (example_heap 4)
   \<and> name (example_heap 3) \<noteq> name (example_heap 4)
   \<and> snd (update_treeinfo_repositories example_heap [0, 7] [2, 3, 4]) = [0, 2, 4]
   \<and> update_treeinfo_repositories
        (fst (update_treeinfo_repositories example_heap [0, 7] [2, 3, 4])) [0, 2, 4] [2, 3, 4] =
      update_treeinfo_repositories example_heap [0, 7] [2, 3, 4]"
proof -
  have batch: "\<forall>t \<in> set [2, 3, 4]. origin (example_heap t) = REPO_ORIGIN_TREEINFO"
    by (simp add: example_simps)
  have flags: "\<forall>t \<in> set [2, 3, 4]. \<forall>t' \<in> set [2, 3, 4].
      name (example_heap t) = name (example_heap t') \<longrightarrow>
      enabled (example_heap t) = enabled (example_heap t')"
    by (simp add: example_simps)
  have list1: "snd (update_treeinfo_repositories example_heap [0, 7] [2, 3, 4]) = [0, 2, 4]"
    by (simp add: example_simps)
  have names: "name (example_heap 2) \<noteq> name (example_heap 3)
     \<and> name (example_heap 2) \<noteq> name (example_heap 4)
     \<and> name (example_heap 3) \<noteq> name (example_heap 4)"
    by (simp add: example_simps)
  have "update_treeinfo_repositories
          (fst (update_treeinfo_repositories example_heap [0, 7] [2, 3, 4])) [0, 2, 4] [2, 3, 4] =
        update_treeinfo_repositories example_heap [0, 7] [2, 3, 4]"
    using update_treeinfo_repositories_idempotent [OF batch flags, of "[0, 7]"]
    by (simp only: list1)
  then show ?thesis
    using batch names list1 by simp
qed

text \<open>
  The claim as stated holds for every batch. Records 2 and 6 have the same name; 2 is
  enabled and 6 is not. The first pass over the empty list changes no record and returns
  both. The second pass finds the name among the disabled treeinfo repositories of its
  list and disables record 2: the list after the second pass is not the list after the
  first.
\<close>

theorem update_treeinfo_repositories_not_idempotent:
  "origin (example_heap 2) = REPO_ORIGIN_TREEINFO
   \<and> origin (example_heap 6) = REPO_ORIGIN_TREEINFO
   \<and> update_treeinfo_repositories example_heap [] [2, 6] = (example_heap, [2, 6])
   \<and> snd (update_treeinfo_repositories example_heap [2, 6] [2, 6]) = [2, 6]
   \<and> enabled (example_heap 2)
   \<and> \<not> enabled (fst (update_treeinfo_repositories example_heap [2, 6] [2, 6]) 2)
   \<and> records (fst (update_treeinfo_repositories example_heap [2, 6] [2, 6]))
        (snd (update_treeinfo_repositories example_heap [2, 6] [2, 6])) \<noteq>
      records example_heap [2, 6]"
  by (simp add: update_treeinfo_repositories_Nil disable_changes_enabled example_simps)

section \<open>Generating a treeinfo repository\<close>

text \<open>
  Modelled from the spec: the class \<^verbatim>\<open>TreeInfoRepoMetadata\<close> is not under src/. The
  spec gives it the read-only fields name, url and enabled.
\<close>

record TreeInfoRepoMetadata =
  name_md :: string
  url_md :: string
  enabled_md :: bool

text \<open>
  A store is a heap with its allocation counter: the addresses below \<open>allocated\<close> hold
  the objects created so far. \<^verbatim>\<open>copy.deepcopy\<close> creates a new object with the state of
  its argument; the nested ssl configuration is part of that state, so the copy shares
  nothing with the original.
\<close>

record store =
  objects :: heap
  allocated :: nat

definition deepcopy :: "store \<Rightarrow> addr \<Rightarrow> store \<times> addr" where
  "deepcopy s r =
     (s\<lparr>objects := (objects s)(allocated s := objects s r), allocated := Suc (allocated s)\<rparr>,
      allocated s)"

text \<open>An assignment to fields of the object at \<open>r\<close>.\<close>

definition assign :: "store \<Rightarrow> addr \<Rightarrow> (RepoConfigurationData \<Rightarrow> RepoConfigurationData) \<Rightarrow> store" where
  "assign s r f = s\<lparr>objects := (objects s)(r := f (objects s r))\<rparr>"

definition generate_treeinfo_repository ::
  "store \<Rightarrow> addr \<Rightarrow> TreeInfoRepoMetadata \<Rightarrow> store \<times> addr" where
  "generate_treeinfo_repository s repo_data repo_md =
     (case deepcopy s repo_data of (s0, repo) \<Rightarrow>
        let s1 = assign s0 repo (\<lambda>x. x\<lparr>origin := REPO_ORIGIN_TREEINFO\<rparr>);
            s2 = assign s1 repo (\<lambda>x. x\<lparr>name := name_md repo_md\<rparr>);
            s3 = assign s2 repo (\<lambda>x. x\<lparr>type := URL_TYPE_BASEURL\<rparr>);
            s4 = assign s3 repo (\<lambda>x. x\<lparr>url := url_md repo_md\<rparr>);
            s5 = assign s4 repo (\<lambda>x. x\<lparr>enabled := enabled_md repo_md\<rparr>);
            s6 = assign s5 repo (\<lambda>x. x\<lparr>installation_enabled := False\<rparr>)
        in (s6, repo))"

definition example_store :: store where
  "example_store = \<lparr>objects = example_heap, allocated = 8\<rparr>"

definition example_md :: TreeInfoRepoMetadata where
  "example_md = \<lparr>name_md = ''AppStream'', url_md = ''http://a/AppStream'', enabled_md = True\<rparr>"

text \<open>
  C5. The function returns a new object: its address was not allocated before, so it is
  not the template. The new record is the template's state with origin TREEINFO, the
  name, url and enabled flag of the metadata, type BASEURL and installation_enabled false;
  proxy, ssl configuration and ssl verification are the template's. The template and
  every other object allocated before are unchanged.
\<close>

theorem generate_treeinfo_repository_copy:
  assumes "repo_data < allocated s"
  shows "snd (generate_treeinfo_repository s repo_data repo_md) = allocated s
       \<and> snd (generate_treeinfo_repository s repo_data repo_md) \<noteq> repo_data
       \<and> allocated (fst (generate_treeinfo_repository s repo_data repo_md)) = Suc (allocated s)
       \<and> objects (fst (generate_treeinfo_repository s repo_data repo_md))
           (snd (generate_treeinfo_repository s repo_data repo_md)) =
         (objects s repo_data)
           \<lparr>origin := REPO_ORIGIN_TREEINFO, name := name_md repo_md, type := URL_TYPE_BASEURL,
            url := url_md repo_md, enabled := enabled_md repo_md,
            installation_enabled := False\<rparr>
       \<and> proxy (objects (fst (generate_treeinfo_repository s repo_data repo_md))
           (snd (generate_treeinfo_repository s repo_data repo_md))) = proxy (objects s repo_data)
       \<and> ssl_configuration (objects (fst (generate_treeinfo_repository s repo_data repo_md))
           (snd (generate_treeinfo_repository s repo_data repo_md))) =
         ssl_configuration (objects s repo_data)
       \<and> ssl_verification_enabled (objects (fst (generate_treeinfo_repository s repo_data repo_md))
           (snd (generate_treeinfo_repository s repo_data repo_md))) =
         ssl_verification_enabled (objects s repo_data)
       \<and> objects (fst (generate_treeinfo_repository s repo_data repo_md)) repo_data =
         objects s repo_data
       \<and> (\<forall>a. a < allocated s \<longrightarrow>
            objects (fst (generate_treeinfo_repository s repo_data repo_md)) a = objects s a)"
  using assms
  by (simp add: generate_treeinfo_repository_def deepcopy_def assign_def Let_def)

theorem generate_treeinfo_repository_copy_witness:
  "(0 :: addr) < allocated example_store
   \<and> generate_treeinfo_repository example_store 0 example_md =
       (example_store
          \<lparr>objects := (objects example_store)
             (8 := example_repo\<lparr>origin := ''TREEINFO'', name := ''AppStream'',
                    url := ''http://a/AppStream'', installation_enabled := False\<rparr>),
           allocated := 9\<rparr>, 8)
   \<and> objects (fst (generate_treeinfo_repository example_store 0 example_md)) 0 = example_repo
   \<and> objects example_store 0 = example_repo"
proof -
  have live: "(0 :: addr) < allocated example_store"
    by (simp add: example_store_def)
  show ?thesis
    using generate_treeinfo_repository_copy [OF live, of example_md]
    by (simp add: generate_treeinfo_repository_def deepcopy_def assign_def example_store_def
        example_md_def example_heap_0 example_repo_def REPO_ORIGIN_TREEINFO_def
        URL_TYPE_BASEURL_def)
qed

section \<open>Driver disk repositories\<close>

text \<open>
  \<^verbatim>\<open>"DD-{}".format(i)\<close> writes the positive integer \<open>i\<close> in decimal.
\<close>

definition digit_char :: "nat \<Rightarrow> char" where
  "digit_char d = char_of (48 + d)"

function string_of_nat :: "nat \<Rightarrow> string" where
  "string_of_nat n =
     (if n < 10 then [digit_char n] else string_of_nat (n div 10) @ [digit_char (n mod 10)])"
  by pat_completeness auto
termination
  by (relation "measure id") auto

declare string_of_nat.simps [simp del]

text \<open>
  Modelled from the spec: \<^verbatim>\<open>join_paths\<close> of \<^verbatim>\<open>pyanaconda.core.path\<close> is not under
  src/. The spec writes the path of a driver disk directory as \<^verbatim>\<open><path>/DD-<n>\<close>.
\<close>

definition join_paths :: "string \<Rightarrow> string \<Rightarrow> string" where
  "join_paths path p = path @ ''/'' @ p"

definition repo_name :: "nat \<Rightarrow> string" where
  "repo_name i = ''DD-'' @ string_of_nat i"

definition repo_path :: "string \<Rightarrow> nat \<Rightarrow> string" where
  "repo_path path i = join_paths path (repo_name i)"

text \<open>
  The function reads the configuration flag and the file system and may run a command.
  These are the system it runs in; the calls it makes are recorded in order as events.

  Modelled from the spec: \<^verbatim>\<open>execWithRedirect\<close> of \<^verbatim>\<open>pyanaconda.core.util\<close> is not
  under src/. The call returns or raises; the function does not use the value it returns
  and does not catch what it raises.
\<close>

record system =
  can_use_driver_disks :: bool
  isdir :: "string \<Rightarrow> bool"
  glob :: "string \<Rightarrow> string list"
  execWithRedirect_raises :: "string \<Rightarrow> string list \<Rightarrow> bool"

datatype event = IsDir string | Glob string | Exec string "string list"

datatype error = ExecError

text \<open>
  Modelled from the spec: the constructor \<^verbatim>\<open>RepoConfigurationData()\<close> is not under
  src/, and the spec gives the default of no field but ssl verification. The record that
  the constructor returns is the parameter \<open>fresh\<close>.

  The loop \<^verbatim>\<open>for i in count(start=1)\<close> has no bound: it ends at the first index with
  no directory, or with the exception of the command.
\<close>

partial_function (option) scan_driver_disks ::
  "system \<Rightarrow> RepoConfigurationData \<Rightarrow> string \<Rightarrow> nat \<Rightarrow> RepoConfigurationData list \<Rightarrow>
   event list \<Rightarrow> ((error + RepoConfigurationData list) \<times> event list) option" where
  "scan_driver_disks sys fresh path i repositories trace =
     (if \<not> isdir sys (repo_path path i) then
        Some (Inr repositories, trace @ [IsDir (repo_path path i)])
      else if glob sys (repo_path path i @ ''/*rpm'') = [] then
        scan_driver_disks sys fresh path (Suc i) repositories
          (trace @ [IsDir (repo_path path i), Glob (repo_path path i @ ''/*rpm'')])
      else if \<not> isdir sys (join_paths (repo_path path i) ''repodata'') then
        (if execWithRedirect_raises sys ''createrepo_c'' [repo_path path i] then
           Some (Inl ExecError,
             trace @ [IsDir (repo_path path i), Glob (repo_path path i @ ''/*rpm''),
               IsDir (join_paths (repo_path path i) ''repodata''),
               Exec ''createrepo_c'' [repo_path path i]])
         else
           scan_driver_disks sys fresh path (Suc i)
             (repositories @
               [fresh\<lparr>name := repo_name i, url := ''file://'' @ repo_path path i\<rparr>])
             (trace @ [IsDir (repo_path path i), Glob (repo_path path i @ ''/*rpm''),
               IsDir (join_paths (repo_path path i) ''repodata''),
               Exec ''createrepo_c'' [repo_path path i]]))
      else
        scan_driver_disks sys fresh path (Suc i)
          (repositories @
            [fresh\<lparr>name := repo_name i, url := ''file://'' @ repo_path path i\<rparr>])
          (trace @ [IsDir (repo_path path i), Glob (repo_path path i @ ''/*rpm''),
            IsDir (join_paths (repo_path path i) ''repodata'')]))"

definition generate_driver_disk_repositories ::
  "system \<Rightarrow> RepoConfigurationData \<Rightarrow> string \<Rightarrow>
   ((error + RepoConfigurationData list) \<times> event list) option" where
  "generate_driver_disk_repositories sys fresh path =
     (if \<not> can_use_driver_disks sys then Some (Inr [], [])
      else scan_driver_disks sys fresh path 1 [] [])"

subsection \<open>Decimal numerals are distinct\<close>

definition digit_val :: "char \<Rightarrow> nat" where
  "digit_val c = of_char c - 48"

definition nat_of_string :: "string \<Rightarrow> nat" where
  "nat_of_string s = foldl (\<lambda>a c. 10 * a + digit_val c) 0 s"

lemma digit_val_digit_char: "d < 10 \<Longrightarrow> digit_val (digit_char d) = d"
  by (simp add: digit_val_def digit_char_def)

lemma nat_of_string_of_nat: "nat_of_string (string_of_nat n) = n"
proof (induction n rule: string_of_nat.induct)
  case (1 n)
  show ?case
  proof (cases "n < 10")
    case True
    then show ?thesis
      by (simp add: string_of_nat.simps [of n] nat_of_string_def digit_val_digit_char)
  next
    case False
    then have "nat_of_string (string_of_nat n) =
        10 * nat_of_string (string_of_nat (n div 10)) + digit_val (digit_char (n mod 10))"
      by (simp add: string_of_nat.simps [of n] nat_of_string_def)
    also have "\<dots> = 10 * (n div 10) + n mod 10"
      using False "1.IH" by (simp add: digit_val_digit_char)
    finally show ?thesis by simp
  qed
qed

lemma string_of_nat_inj: "string_of_nat a = string_of_nat b \<Longrightarrow> a = b"
  by (metis nat_of_string_of_nat)

lemma string_of_nat_not_Nil: "string_of_nat n \<noteq> []"
  by (simp add: string_of_nat.simps [of n])

lemma last_string_of_nat: "last (string_of_nat n) = digit_char (n mod 10)"
  by (simp add: string_of_nat.simps [of n] string_of_nat_not_Nil)

lemma repo_path_inj: "repo_path path i = repo_path path j \<Longrightarrow> i = j"
  by (simp add: repo_path_def join_paths_def repo_name_def string_of_nat_inj)


lemma digit_char_not_a: "digit_char (n mod 10) \<noteq> CHR ''a''"
proof
  assume "digit_char (n mod 10) = CHR ''a''"
  then have "(of_char (digit_char (n mod 10)) :: nat) = of_char (CHR ''a'')" by simp
  then show False by (simp add: digit_char_def)
qed

lemma repo_path_not_repodata: "repo_path path i \<noteq> join_paths (repo_path path j) ''repodata''"
proof
  assume "repo_path path i = join_paths (repo_path path j) ''repodata''"
  then have "string_of_nat i = string_of_nat j @ ''/repodata''"
    by (simp add: repo_path_def join_paths_def repo_name_def)
  then have "last (string_of_nat i) = CHR ''a''" by simp
  then show False by (simp add: last_string_of_nat digit_char_not_a)
qed

subsection \<open>The scan\<close>

text \<open>The calls that examine the driver disk directory of index \<open>j\<close>.\<close>

definition directory_events :: "string \<Rightarrow> nat \<Rightarrow> event set" where
  "directory_events path j =
     {IsDir (repo_path path j), Glob (repo_path path j @ ''/*rpm''),
      IsDir (join_paths (repo_path path j) ''repodata''),
      Exec ''createrepo_c'' [repo_path path j]}"

lemma directory_events_disjoint:
  "e \<in> directory_events path i \<Longrightarrow> e \<in> directory_events path j \<Longrightarrow> i = j"
  using repo_path_not_repodata [of path i j] repo_path_not_repodata [of path j i]
  by (auto simp: directory_events_def join_paths_def [of _ "''repodata''"] dest: repo_path_inj)

lemma scan_driver_disks_stops:
  assumes "\<not> isdir sys (repo_path path k)" and "i \<le> k"
  shows "\<exists>res new. scan_driver_disks sys fresh path i repos tr = Some (res, tr @ new)
           \<and> set new \<subseteq> (\<Union>j \<in> {i..k}. directory_events path j)"
  using assms
proof (induction "k - i" arbitrary: i repos tr)
  case 0
  then have "i = k" by simp
  with "0.prems" show ?case
    by (subst scan_driver_disks.simps) (simp add: directory_events_def)
next
  case (Suc d)
  show ?case
  proof (cases "isdir sys (repo_path path i)")
    case False
    with Suc.prems show ?thesis
      by (subst scan_driver_disks.simps) (auto simp: directory_events_def)
  next
    case True
    from Suc.hyps Suc.prems have step: "d = k - Suc i" "Suc i \<le> k" by simp_all
    have mono: "(\<Union>j \<in> {Suc i..k}. directory_events path j) \<subseteq>
        (\<Union>j \<in> {i..k}. directory_events path j)"
      by force
    have here: "directory_events path i \<subseteq> (\<Union>j \<in> {i..k}. directory_events path j)"
      using Suc.prems by force
    show ?thesis
    proof (cases "glob sys (repo_path path i @ ''/*rpm'') = []")
      case no_rpm: True
      from Suc.hyps(1) [OF step(1) Suc.prems(1) step(2),
          of repos "tr @ [IsDir (repo_path path i), Glob (repo_path path i @ ''/*rpm'')]"]
      obtain res new where
        r: "scan_driver_disks sys fresh path (Suc i) repos
              (tr @ [IsDir (repo_path path i), Glob (repo_path path i @ ''/*rpm'')]) =
            Some (res, (tr @ [IsDir (repo_path path i), Glob (repo_path path i @ ''/*rpm'')]) @ new)"
        and n: "set new \<subseteq> (\<Union>j \<in> {Suc i..k}. directory_events path j)"
        by blast
      have "set ([IsDir (repo_path path i), Glob (repo_path path i @ ''/*rpm'')] @ new) \<subseteq>
          (\<Union>j \<in> {i..k}. directory_events path j)"
        using n mono here by (auto simp: directory_events_def)
      with r True no_rpm show ?thesis
        by (subst scan_driver_disks.simps) (simp del: set_append UN_iff)
    next
      case rpm: False
      show ?thesis
      proof (cases "isdir sys (join_paths (repo_path path i) ''repodata'')")
        case repodata: True
        let ?ev = "[IsDir (repo_path path i), Glob (repo_path path i @ ''/*rpm''),
          IsDir (join_paths (repo_path path i) ''repodata'')]"
        from Suc.hyps(1) [OF step(1) Suc.prems(1) step(2), of
            "repos @ [fresh\<lparr>name := repo_name i, url := ''file://'' @ repo_path path i\<rparr>]"
            "tr @ ?ev"]
        obtain res new where
          r: "scan_driver_disks sys fresh path (Suc i)
                (repos @ [fresh\<lparr>name := repo_name i, url := ''file://'' @ repo_path path i\<rparr>])
                (tr @ ?ev) = Some (res, (tr @ ?ev) @ new)"
          and n: "set new \<subseteq> (\<Union>j \<in> {Suc i..k}. directory_events path j)"
          by blast
        have "set (?ev @ new) \<subseteq> (\<Union>j \<in> {i..k}. directory_events path j)"
          using n mono here by (auto simp: directory_events_def)
        with r True rpm repodata show ?thesis
          by (subst scan_driver_disks.simps) (simp del: set_append UN_iff)
      next
        case no_repodata: False
        let ?ev = "[IsDir (repo_path path i), Glob (repo_path path i @ ''/*rpm''),
          IsDir (join_paths (repo_path path i) ''repodata''),
          Exec ''createrepo_c'' [repo_path path i]]"
        have ev: "set ?ev \<subseteq> (\<Union>j \<in> {i..k}. directory_events path j)"
          using here by (auto simp: directory_events_def)
        show ?thesis
        proof (cases "execWithRedirect_raises sys ''createrepo_c'' [repo_path path i]")
          case True
          with \<open>isdir sys (repo_path path i)\<close> rpm no_repodata ev show ?thesis
            by (subst scan_driver_disks.simps) (simp del: UN_iff)
        next
          case False
          from Suc.hyps(1) [OF step(1) Suc.prems(1) step(2), of
              "repos @ [fresh\<lparr>name := repo_name i, url := ''file://'' @ repo_path path i\<rparr>]"
              "tr @ ?ev"]
          obtain res new where
            r: "scan_driver_disks sys fresh path (Suc i)
                  (repos @ [fresh\<lparr>name := repo_name i, url := ''file://'' @ repo_path path i\<rparr>])
                  (tr @ ?ev) = Some (res, (tr @ ?ev) @ new)"
            and n: "set new \<subseteq> (\<Union>j \<in> {Suc i..k}. directory_events path j)"
            by blast
          have "set (?ev @ new) \<subseteq> (\<Union>j \<in> {i..k}. directory_events path j)"
            using n mono ev by (simp del: UN_iff)
          with r \<open>isdir sys (repo_path path i)\<close> rpm no_repodata False show ?thesis
            by (subst scan_driver_disks.simps) (simp del: set_append UN_iff)
        qed
      qed
    qed
  qed
qed


lemma scan_driver_disks_complete:
  assumes good: "\<forall>j. i \<le> j \<and> j \<le> n \<longrightarrow>
        isdir sys (repo_path path j) \<and> glob sys (repo_path path j @ ''/*rpm'') \<noteq> []
        \<and> isdir sys (join_paths (repo_path path j) ''repodata'')"
    and stop: "\<not> isdir sys (repo_path path (Suc n))"
    and le: "i \<le> Suc n"
  shows "scan_driver_disks sys fresh path i repos tr =
     Some (Inr (repos @
         map (\<lambda>j. fresh\<lparr>name := repo_name j, url := ''file://'' @ repo_path path j\<rparr>)
           [i..<Suc n]),
       tr @ concat (map (\<lambda>j. [IsDir (repo_path path j), Glob (repo_path path j @ ''/*rpm''),
               IsDir (join_paths (repo_path path j) ''repodata'')]) [i..<Suc n])
          @ [IsDir (repo_path path (Suc n))])"
  using good le
proof (induction "Suc n - i" arbitrary: i repos tr)
  case 0
  then have "i = Suc n" by simp
  with stop show ?case
    by (subst scan_driver_disks.simps) simp
next
  case (Suc d)
  then have i: "i \<le> n" "i < Suc n" by simp_all
  with Suc.prems have here: "isdir sys (repo_path path i)"
      "glob sys (repo_path path i @ ''/*rpm'') \<noteq> []"
      "isdir sys (join_paths (repo_path path i) ''repodata'')"
    by simp_all
  have rest: "\<forall>j. Suc i \<le> j \<and> j \<le> n \<longrightarrow>
        isdir sys (repo_path path j) \<and> glob sys (repo_path path j @ ''/*rpm'') \<noteq> []
        \<and> isdir sys (join_paths (repo_path path j) ''repodata'')"
    using Suc.prems(1) by simp
  have d: "d = Suc n - Suc i" using Suc.hyps(2) by simp
  have upt: "[i..<Suc n] = i # [Suc i..<Suc n]"
    using i by (simp add: upt_conv_Cons)
  show ?case
    by (subst scan_driver_disks.simps)
      (simp add: here upt Suc.hyps(1) [OF d rest] i del: upt_Suc)
qed


lemma repo_name_inj: "repo_name i = repo_name j \<Longrightarrow> i = j"
  by (simp add: repo_name_def string_of_nat_inj)

text \<open>The records of a result are those of directories with packages.\<close>

definition emitted ::
  "system \<Rightarrow> RepoConfigurationData \<Rightarrow> string \<Rightarrow> RepoConfigurationData list \<Rightarrow>
   (error + RepoConfigurationData list) \<times> event list \<Rightarrow> bool" where
  "emitted sys fresh path repos y =
     (case fst y of
        Inl e \<Rightarrow> True
      | Inr rs \<Rightarrow>
          (\<exists>js. rs = repos @
               map (\<lambda>j. fresh\<lparr>name := repo_name j, url := ''file://'' @ repo_path path j\<rparr>) js
             \<and> list_all (\<lambda>j. glob sys (repo_path path j @ ''/*rpm'') \<noteq> []) js))"

lemma emitted_Cons:
  assumes "emitted sys fresh path
      (repos @ [fresh\<lparr>name := repo_name i, url := ''file://'' @ repo_path path i\<rparr>]) y"
    and "glob sys (repo_path path i @ ''/*rpm'') \<noteq> []"
  shows "emitted sys fresh path repos y"
proof (cases "fst y")
  case (Inl e)
  then show ?thesis by (simp add: emitted_def)
next
  case (Inr rs)
  with assms(1) obtain js where
    js: "rs = (repos @ [fresh\<lparr>name := repo_name i, url := ''file://'' @ repo_path path i\<rparr>]) @
          map (\<lambda>j. fresh\<lparr>name := repo_name j, url := ''file://'' @ repo_path path j\<rparr>) js"
    and g: "list_all (\<lambda>j. glob sys (repo_path path j @ ''/*rpm'') \<noteq> []) js"
    by (auto simp: emitted_def)
  have "\<exists>js'. rs = repos @
      map (\<lambda>j. fresh\<lparr>name := repo_name j, url := ''file://'' @ repo_path path j\<rparr>) js'
    \<and> list_all (\<lambda>j. glob sys (repo_path path j @ ''/*rpm'') \<noteq> []) js'"
    using js g assms(2) by (intro exI [of _ "i # js"]) simp
  with Inr show ?thesis by (simp add: emitted_def)
qed

lemma scan_driver_disks_emitted:
  assumes "scan_driver_disks sys fresh path i repos tr = Some y"
  shows "emitted sys fresh path repos y"
proof (rule scan_driver_disks.raw_induct
    [where P = "\<lambda>sys fresh path i repos tr y. emitted sys fresh path repos y", OF _ assms],
    goal_cases)
  case (1 scan sys fresh path i repos tr y)
  let ?new = "fresh\<lparr>name := repo_name i, url := ''file://'' @ repo_path path i\<rparr>"
  consider (stop) "\<not> isdir sys (repo_path path i)"
    | (skip) "isdir sys (repo_path path i)" "glob sys (repo_path path i @ ''/*rpm'') = []"
    | (raise) "fst y = Inl ExecError"
    | (add) "glob sys (repo_path path i @ ''/*rpm'') \<noteq> []"
        "\<exists>tr'. scan sys fresh path (Suc i) (repos @ [?new]) tr' = Some y"
    using 1(2) by (auto split: if_splits)
  then show ?case
  proof cases
    case stop
    with 1(2) have "fst y = Inr repos" by auto
    then show ?thesis by (simp add: emitted_def)
  next
    case skip
    with 1(2) have "scan sys fresh path (Suc i) repos
        (tr @ [IsDir (repo_path path i), Glob (repo_path path i @ ''/*rpm'')]) = Some y"
      by simp
    then show ?thesis by (rule 1(1))
  next
    case raise
    then show ?thesis by (simp add: emitted_def)
  next
    case add
    then obtain tr' where "scan sys fresh path (Suc i) (repos @ [?new]) tr' = Some y"
      by blast
    then have "emitted sys fresh path (repos @ [?new]) y" by (rule 1(1))
    then show ?thesis using add(1) by (rule emitted_Cons)
  qed
qed

subsection \<open>Example systems\<close>

definition example_system :: system where
  "example_system =
     \<lparr>can_use_driver_disks = True,
      isdir = (\<lambda>p. p \<in> set [''/run/install/DD-1'', ''/run/install/DD-1/repodata'',
                 ''/run/install/DD-2'', ''/run/install/DD-2/repodata'']),
      glob = (\<lambda>p. if p = ''/run/install/DD-1/*rpm'' then [''/run/install/DD-1/kmod-a.rpm'']
                 else if p = ''/run/install/DD-2/*rpm'' then [''/run/install/DD-2/kmod-b.rpm'']
                 else []),
      execWithRedirect_raises = (\<lambda>_ _. False)\<rparr>"

text \<open>
  A system with a gap: DD-1 has packages, DD-2 has none, there is no DD-3, and DD-4 has
  packages.
\<close>

definition example_gap_system :: system where
  "example_gap_system =
     \<lparr>can_use_driver_disks = True,
      isdir = (\<lambda>p. p \<in> set [''/run/install/DD-1'', ''/run/install/DD-1/repodata'',
                 ''/run/install/DD-2'', ''/run/install/DD-4'', ''/run/install/DD-4/repodata'']),
      glob = (\<lambda>p. if p = ''/run/install/DD-1/*rpm'' then [''/run/install/DD-1/kmod-a.rpm'']
                 else if p = ''/run/install/DD-4/*rpm'' then [''/run/install/DD-4/kmod-d.rpm'']
                 else []),
      execWithRedirect_raises = (\<lambda>_ _. False)\<rparr>"

lemma example_decimals:
  "string_of_nat (Suc 0) = ''1''"
  "string_of_nat (Suc (Suc 0)) = ''2''"
  "string_of_nat (Suc (Suc (Suc 0))) = ''3''"
  "string_of_nat (Suc (Suc (Suc (Suc 0)))) = ''4''"
  by code_simp+

lemmas example_paths =
  repo_path_def repo_name_def join_paths_def example_decimals


lemma example_generate:
  "generate_driver_disk_repositories example_system example_repo ''/run/install'' =
     Some (Inr [example_repo\<lparr>name := ''DD-1'', url := ''file:///run/install/DD-1''\<rparr>,
                example_repo\<lparr>name := ''DD-2'', url := ''file:///run/install/DD-2''\<rparr>],
       [IsDir ''/run/install/DD-1'', Glob ''/run/install/DD-1/*rpm'',
        IsDir ''/run/install/DD-1/repodata'',
        IsDir ''/run/install/DD-2'', Glob ''/run/install/DD-2/*rpm'',
        IsDir ''/run/install/DD-2/repodata'',
        IsDir ''/run/install/DD-3''])"
  by (simp add: generate_driver_disk_repositories_def scan_driver_disks.simps example_paths
      example_system_def)

lemma example_gap_generate:
  "generate_driver_disk_repositories example_gap_system example_repo ''/run/install'' =
     Some (Inr [example_repo\<lparr>name := ''DD-1'', url := ''file:///run/install/DD-1''\<rparr>],
       [IsDir ''/run/install/DD-1'', Glob ''/run/install/DD-1/*rpm'',
        IsDir ''/run/install/DD-1/repodata'',
        IsDir ''/run/install/DD-2'', Glob ''/run/install/DD-2/*rpm'',
        IsDir ''/run/install/DD-3''])"
  by (simp add: generate_driver_disk_repositories_def scan_driver_disks.simps example_paths
      example_gap_system_def)


subsection \<open>C6: a complete sequence of driver disks\<close>

text \<open>
  C6. When driver disks are allowed, each of the directories DD-1 to DD-n exists, holds a
  file matching \<^verbatim>\<open>*rpm\<close> and has a \<^verbatim>\<open>repodata\<close> directory, and there is no
  directory DD-(n+1), the function returns: its result is the \<open>n\<close> records of the indices
  1 to \<open>n\<close> in this order, the record of index \<open>i\<close> being a new record with the name
  \<^verbatim>\<open>DD-<i>\<close> and the url \<^verbatim>\<open>file://<path>/DD-<i>\<close>, and the command is not run.
\<close>

theorem generate_driver_disk_repositories_complete:
  assumes "can_use_driver_disks sys"
    and "\<forall>i. 1 \<le> i \<and> i \<le> n \<longrightarrow>
        isdir sys (repo_path path i) \<and> glob sys (repo_path path i @ ''/*rpm'') \<noteq> []
        \<and> isdir sys (join_paths (repo_path path i) ''repodata'')"
    and "\<not> isdir sys (repo_path path (Suc n))"
  shows "\<exists>trace. generate_driver_disk_repositories sys fresh path =
           Some (Inr (map (\<lambda>i. fresh\<lparr>name := ''DD-'' @ string_of_nat i,
                           url := ''file://'' @ path @ ''/DD-'' @ string_of_nat i\<rparr>)
                        [1..<Suc n]), trace)
         \<and> (\<forall>cmd args. Exec cmd args \<notin> set trace)"
proof -
  have "scan_driver_disks sys fresh path 1 [] [] =
     Some (Inr ([] @
         map (\<lambda>j. fresh\<lparr>name := repo_name j, url := ''file://'' @ repo_path path j\<rparr>)
           [1..<Suc n]),
       [] @ concat (map (\<lambda>j. [IsDir (repo_path path j), Glob (repo_path path j @ ''/*rpm''),
               IsDir (join_paths (repo_path path j) ''repodata'')]) [1..<Suc n])
          @ [IsDir (repo_path path (Suc n))])"
    using assms(2,3) by (intro scan_driver_disks_complete) simp_all
  with assms(1) show ?thesis
    by (auto simp: generate_driver_disk_repositories_def repo_name_def repo_path_def
        join_paths_def)
qed

theorem generate_driver_disk_repositories_complete_witness:
  "can_use_driver_disks example_system
   \<and> isdir example_system ''/run/install/DD-1''
   \<and> glob example_system ''/run/install/DD-1/*rpm'' \<noteq> []
   \<and> isdir example_system ''/run/install/DD-1/repodata''
   \<and> isdir example_system ''/run/install/DD-2''
   \<and> glob example_system ''/run/install/DD-2/*rpm'' \<noteq> []
   \<and> isdir example_system ''/run/install/DD-2/repodata''
   \<and> \<not> isdir example_system ''/run/install/DD-3''
   \<and> (\<exists>trace. generate_driver_disk_repositories example_system example_repo ''/run/install'' =
          Some (Inr [example_repo\<lparr>name := ''DD-1'', url := ''file:///run/install/DD-1''\<rparr>,
                     example_repo\<lparr>name := ''DD-2'', url := ''file:///run/install/DD-2''\<rparr>],
                trace)
        \<and> (\<forall>cmd args. Exec cmd args \<notin> set trace))
   \<and> generate_driver_disk_repositories example_system example_repo ''/run/install'' =
       Some (Inr [example_repo\<lparr>name := ''DD-1'', url := ''file:///run/install/DD-1''\<rparr>,
                  example_repo\<lparr>name := ''DD-2'', url := ''file:///run/install/DD-2''\<rparr>],
         [IsDir ''/run/install/DD-1'', Glob ''/run/install/DD-1/*rpm'',
          IsDir ''/run/install/DD-1/repodata'',
          IsDir ''/run/install/DD-2'', Glob ''/run/install/DD-2/*rpm'',
          IsDir ''/run/install/DD-2/repodata'',
          IsDir ''/run/install/DD-3''])"
proof -
  have allowed: "can_use_driver_disks example_system"
    by (simp add: example_system_def)
  have good: "\<forall>i. 1 \<le> i \<and> i \<le> Suc (Suc 0) \<longrightarrow>
        isdir example_system (repo_path ''/run/install'' i)
        \<and> glob example_system (repo_path ''/run/install'' i @ ''/*rpm'') \<noteq> []
        \<and> isdir example_system (join_paths (repo_path ''/run/install'' i) ''repodata'')"
  proof (intro allI impI)
    fix i :: nat
    assume "1 \<le> i \<and> i \<le> Suc (Suc 0)"
    then have "i = Suc 0 \<or> i = Suc (Suc 0)" by auto
    then show "isdir example_system (repo_path ''/run/install'' i)
        \<and> glob example_system (repo_path ''/run/install'' i @ ''/*rpm'') \<noteq> []
        \<and> isdir example_system (join_paths (repo_path ''/run/install'' i) ''repodata'')"
      by (auto simp: example_paths example_system_def)
  qed
  have stop: "\<not> isdir example_system (repo_path ''/run/install'' (Suc (Suc (Suc 0))))"
    by (simp add: example_paths example_system_def)
  have dirs: "isdir example_system ''/run/install/DD-1''
     \<and> glob example_system ''/run/install/DD-1/*rpm'' \<noteq> []
     \<and> isdir example_system ''/run/install/DD-1/repodata''
     \<and> isdir example_system ''/run/install/DD-2''
     \<and> glob example_system ''/run/install/DD-2/*rpm'' \<noteq> []
     \<and> isdir example_system ''/run/install/DD-2/repodata''
     \<and> \<not> isdir example_system ''/run/install/DD-3''"
    by (simp add: example_system_def)
  show ?thesis
    using generate_driver_disk_repositories_complete [OF allowed good stop, of example_repo]
      allowed dirs example_generate
    by (simp add: upt_rec example_decimals)
qed

subsection \<open>C7: a directory without packages, a missing directory\<close>

text \<open>
  C7. At an index \<open>k\<close> whose directory exists and holds no file matching \<^verbatim>\<open>*rpm\<close>, the
  scan goes on at \<open>k + 1\<close> with the same repositories, and no record of the result has
  the name of that directory. At an index \<open>k\<close> whose directory does not exist, the scan
  returns the repositories it has; the whole function then returns, and no call of its
  trace examines a directory of an index above \<open>k\<close>.
\<close>

theorem scan_driver_disks_skips_and_stops:
  "(isdir sys (repo_path path k) \<and> glob sys (repo_path path k @ ''/*rpm'') = [] \<longrightarrow>
      scan_driver_disks sys fresh path k repos tr =
        scan_driver_disks sys fresh path (Suc k) repos
          (tr @ [IsDir (repo_path path k), Glob (repo_path path k @ ''/*rpm'')])
      \<and> (\<forall>rs trace. generate_driver_disk_repositories sys fresh path = Some (Inr rs, trace) \<longrightarrow>
            repo_name k \<notin> name ` set rs))
   \<and> (\<not> isdir sys (repo_path path k) \<longrightarrow>
      scan_driver_disks sys fresh path k repos tr =
        Some (Inr repos, tr @ [IsDir (repo_path path k)])
      \<and> (1 \<le> k \<longrightarrow>
           (\<exists>res trace. generate_driver_disk_repositories sys fresh path = Some (res, trace)
              \<and> (\<forall>j. k < j \<longrightarrow> set trace \<inter> directory_events path j = {}))))"
proof (intro conjI impI)
  assume skip: "isdir sys (repo_path path k) \<and> glob sys (repo_path path k @ ''/*rpm'') = []"
  then show "scan_driver_disks sys fresh path k repos tr =
      scan_driver_disks sys fresh path (Suc k) repos
        (tr @ [IsDir (repo_path path k), Glob (repo_path path k @ ''/*rpm'')])"
    by (subst scan_driver_disks.simps) simp
  show "\<forall>rs trace. generate_driver_disk_repositories sys fresh path = Some (Inr rs, trace) \<longrightarrow>
      repo_name k \<notin> name ` set rs"
  proof (intro allI impI)
    fix rs trace
    assume g: "generate_driver_disk_repositories sys fresh path = Some (Inr rs, trace)"
    show "repo_name k \<notin> name ` set rs"
    proof (cases "can_use_driver_disks sys")
      case False
      with g show ?thesis by (simp add: generate_driver_disk_repositories_def)
    next
      case True
      with g have "scan_driver_disks sys fresh path 1 [] [] = Some (Inr rs, trace)"
        by (simp add: generate_driver_disk_repositories_def)
      then have "emitted sys fresh path [] (Inr rs, trace)"
        by (rule scan_driver_disks_emitted)
      then obtain js where
        rs: "rs = map (\<lambda>j. fresh\<lparr>name := repo_name j, url := ''file://'' @ repo_path path j\<rparr>) js"
        and js: "list_all (\<lambda>j. glob sys (repo_path path j @ ''/*rpm'') \<noteq> []) js"
        by (auto simp: emitted_def)
      show ?thesis
      proof
        assume "repo_name k \<in> name ` set rs"
        then obtain j where "j \<in> set js" and "repo_name k = repo_name j"
          by (auto simp: rs)
        then have "k \<in> set js" by (auto dest: repo_name_inj)
        with js skip show False by (simp add: list_all_iff)
      qed
    qed
  qed
next
  assume stop: "\<not> isdir sys (repo_path path k)"
  then show "scan_driver_disks sys fresh path k repos tr =
      Some (Inr repos, tr @ [IsDir (repo_path path k)])"
    by (subst scan_driver_disks.simps) simp
  assume k: "1 \<le> k"
  show "\<exists>res trace. generate_driver_disk_repositories sys fresh path = Some (res, trace)
      \<and> (\<forall>j. k < j \<longrightarrow> set trace \<inter> directory_events path j = {})"
  proof (cases "can_use_driver_disks sys")
    case False
    then show ?thesis by (simp add: generate_driver_disk_repositories_def)
  next
    case True
    from scan_driver_disks_stops [OF stop k, of fresh "[]" "[]"]
    obtain res new where r: "scan_driver_disks sys fresh path 1 [] [] = Some (res, new)"
      and new: "set new \<subseteq> (\<Union>j \<in> {1..k}. directory_events path j)"
      by auto
    have "set new \<inter> directory_events path j = {}" if "k < j" for j
    proof (rule ccontr)
      assume "set new \<inter> directory_events path j \<noteq> {}"
      then obtain e where en: "e \<in> set new" and e: "e \<in> directory_events path j" by blast
      from new en have "e \<in> (\<Union>j \<in> {1..k}. directory_events path j)" by (rule subsetD)
      then obtain i where "i \<le> k" and "e \<in> directory_events path i" by auto
      with e have "i = j" by (auto dest: directory_events_disjoint)
      with \<open>i \<le> k\<close> that show False by simp
    qed
    with r True show ?thesis
      by (simp add: generate_driver_disk_repositories_def)
  qed
qed

theorem scan_driver_disks_skips_and_stops_witness:
  "isdir example_gap_system ''/run/install/DD-2''
   \<and> glob example_gap_system ''/run/install/DD-2/*rpm'' = []
   \<and> \<not> isdir example_gap_system ''/run/install/DD-3''
   \<and> isdir example_gap_system ''/run/install/DD-4''
   \<and> generate_driver_disk_repositories example_gap_system example_repo ''/run/install'' =
       Some (Inr [example_repo\<lparr>name := ''DD-1'', url := ''file:///run/install/DD-1''\<rparr>],
         [IsDir ''/run/install/DD-1'', Glob ''/run/install/DD-1/*rpm'',
          IsDir ''/run/install/DD-1/repodata'',
          IsDir ''/run/install/DD-2'', Glob ''/run/install/DD-2/*rpm'',
          IsDir ''/run/install/DD-3''])
   \<and> scan_driver_disks example_gap_system example_repo ''/run/install'' (Suc (Suc 0)) [] [] =
       scan_driver_disks example_gap_system example_repo ''/run/install'' (Suc (Suc (Suc 0))) []
         [IsDir ''/run/install/DD-2'', Glob ''/run/install/DD-2/*rpm'']
   \<and> scan_driver_disks example_gap_system example_repo ''/run/install'' (Suc (Suc (Suc 0))) [] [] =
       Some (Inr [], [IsDir ''/run/install/DD-3''])"
proof -
  have dirs: "isdir example_gap_system ''/run/install/DD-2''
     \<and> glob example_gap_system ''/run/install/DD-2/*rpm'' = []
     \<and> \<not> isdir example_gap_system ''/run/install/DD-3''
     \<and> isdir example_gap_system ''/run/install/DD-4''"
    by (simp add: example_gap_system_def)
  show ?thesis
    using scan_driver_disks_skips_and_stops
        [of example_gap_system "''/run/install''" "Suc (Suc 0)" example_repo "[]" "[]"]
      scan_driver_disks_skips_and_stops
        [of example_gap_system "''/run/install''" "Suc (Suc (Suc 0))" example_repo "[]" "[]"]
      dirs example_gap_generate
    by (simp add: example_paths)
qed

section \<open>The URL source\<close>

text \<open>
  \<^verbatim>\<open>URLSourceModule\<close> of \<^verbatim>\<open>url.py\<close>. The module holds one repository configuration and
  the signal \<^verbatim>\<open>repo_configuration_changed\<close>, to which handlers are connected.

  An exception is an \<^verbatim>\<open>InvalidValueError\<close> with its message, or an exception of another
  class with its description.
\<close>

datatype source_error = InvalidValueError string | OtherError string

text \<open>
  Modelled from the spec: \<^verbatim>\<open>Signal\<close> of \<^verbatim>\<open>pyanaconda.core.signal\<close> is not under src/.
  Section 4.4 of the spec: the subscribers are notified synchronously with the new
  record, in the order of their subscription, and the failure of a subscriber propagates
  to the caller. A handler is called with the configuration and returns (\<open>None\<close>) or raises
  an exception. What a handler does is outside the module: the state records the calls
  of handlers, one entry with the argument for each call, in order.
\<close>

type_synonym handler = "RepoConfigurationData \<Rightarrow> source_error option"

record URLSourceModule =
  repo_configuration :: RepoConfigurationData
  repo_configuration_changed :: "handler list"
  handler_calls :: "RepoConfigurationData list"

fun emit ::
  "handler list \<Rightarrow> RepoConfigurationData \<Rightarrow> RepoConfigurationData list \<Rightarrow>
   (source_error + unit) \<times> RepoConfigurationData list" where
  "emit [] c calls = (Inr (), calls)"
| "emit (h # hs) c calls =
     (case h c of
        Some e \<Rightarrow> (Inl e, calls @ [c])
      | None \<Rightarrow> emit hs c (calls @ [c]))"

text \<open>
  Modelled from the spec: \<^verbatim>\<open>ProxyString\<close> and \<^verbatim>\<open>ProxyStringError\<close> of
  \<^verbatim>\<open>pyanaconda.core.payload\<close> are not under src/. Parsing a string as a proxy url
  succeeds or raises the error with a message: the parameter \<open>proxy_error\<close> gives the
  message for a string that is not a well-formed proxy url, and \<open>None\<close> for one that is.

  A validation returns \<open>None\<close> when it returns, and the exception when it raises.
\<close>

definition validate_proxy :: "(string \<Rightarrow> string option) \<Rightarrow> string option \<Rightarrow> source_error option" where
  "validate_proxy proxy_error p =
     (case p of
        None \<Rightarrow> None
      | Some s \<Rightarrow>
          if s = [] then None
          else (case proxy_error s of
                  None \<Rightarrow> None
                | Some e \<Rightarrow>
                    Some (InvalidValueError (''Proxy URL does not have valid format: '' @ e))))"

definition validate_url :: "string \<Rightarrow> source_error option" where
  "validate_url url_type =
     (if url_type \<notin> set URL_TYPES
      then Some (InvalidValueError
        (''Invalid source type set '' @ [CHR 0x27] @ url_type @ [CHR 0x27]))
      else None)"

text \<open>
  \<^verbatim>\<open>set_repo_configuration\<close> validates, stores the candidate and then emits the signal:
  when a handler raises, the candidate is already stored.
\<close>

definition set_repo_configuration ::
  "(string \<Rightarrow> string option) \<Rightarrow> URLSourceModule \<Rightarrow> RepoConfigurationData \<Rightarrow>
   (source_error + unit) \<times> URLSourceModule" where
  "set_repo_configuration proxy_error self c =
     (case validate_url (type c) of
        Some e \<Rightarrow> (Inl e, self)
      | None \<Rightarrow>
          (case validate_proxy proxy_error (proxy c) of
             Some e \<Rightarrow> (Inl e, self)
           | None \<Rightarrow>
               (let self1 = self\<lparr>repo_configuration := c\<rparr>;
                    emitted = emit (repo_configuration_changed self1) (repo_configuration self1)
                      (handler_calls self1)
                in (fst emitted, self1\<lparr>handler_calls := snd emitted\<rparr>))))"

subsection \<open>Kickstart data\<close>

text \<open>
  Modelled from the spec: the kickstart record \<^verbatim>\<open>data.url\<close> is made by a parser that is
  not under src/. Its fields are those of section 6 of the spec; a field that the
  kickstart file does not set is \<^verbatim>\<open>None\<close>.
\<close>

record url_data =
  url_ks :: "string option"
  mirrorlist :: "string option"
  metalink :: "string option"
  proxy_ks :: "string option"
  noverifyssl :: bool
  sslcacert :: "string option"
  sslclientcert :: "string option"
  sslclientkey :: "string option"
  seen :: bool

text \<open>
  An optional string as a condition is true when it is a non-empty string;
  \<^verbatim>\<open>x or ""\<close> is \<open>x\<close> when \<open>x\<close> is true and the empty string otherwise.
\<close>

definition nonempty :: "string option \<Rightarrow> string option" where
  "nonempty x = (case x of None \<Rightarrow> None | Some s \<Rightarrow> if s = [] then None else Some s)"

definition or_empty :: "string option \<Rightarrow> string" where
  "or_empty x = (case nonempty x of None \<Rightarrow> [] | Some s \<Rightarrow> s)"

text \<open>
  \<^verbatim>\<open>process_kickstart\<close> starts from a new \<^verbatim>\<open>RepoConfigurationData()\<close>, the parameter
  \<open>fresh\<close>.
\<close>

definition process_kickstart ::
  "(string \<Rightarrow> string option) \<Rightarrow> RepoConfigurationData \<Rightarrow> URLSourceModule \<Rightarrow> url_data \<Rightarrow>
   (source_error + unit) \<times> URLSourceModule" where
  "process_kickstart proxy_error fresh self data =
     (let repo_data0 =
            (case nonempty (url_ks data) of
               Some u \<Rightarrow> fresh\<lparr>url := u, type := URL_TYPE_BASEURL\<rparr>
             | None \<Rightarrow>
                 (case nonempty (mirrorlist data) of
                    Some u \<Rightarrow> fresh\<lparr>url := u, type := URL_TYPE_MIRRORLIST\<rparr>
                  | None \<Rightarrow>
                      (case nonempty (metalink data) of
                         Some u \<Rightarrow> fresh\<lparr>url := u, type := URL_TYPE_METALINK\<rparr>
                       | None \<Rightarrow> fresh)));
          repo_data = repo_data0
            \<lparr>proxy := proxy_ks data,
             ssl_verification_enabled := \<not> noverifyssl data,
             ssl_configuration := (ssl_configuration repo_data0)
               \<lparr>ca_cert_path := or_empty (sslcacert data),
                client_cert_path := or_empty (sslclientcert data),
                client_key_path := or_empty (sslclientkey data)\<rparr>\<rparr>
      in set_repo_configuration proxy_error self repo_data)"

definition setup_kickstart :: "URLSourceModule \<Rightarrow> url_data \<Rightarrow> url_data" where
  "setup_kickstart self data =
     (let c = repo_configuration self;
          data1 =
            (if type c = URL_TYPE_BASEURL then data\<lparr>url_ks := Some (url c)\<rparr>
             else if type c = URL_TYPE_MIRRORLIST then data\<lparr>mirrorlist := Some (url c)\<rparr>
             else if type c = URL_TYPE_METALINK then data\<lparr>metalink := Some (url c)\<rparr>
             else data)
      in data1
        \<lparr>proxy_ks := proxy c,
         noverifyssl := \<not> ssl_verification_enabled c,
         sslcacert := Some (ca_cert_path (ssl_configuration c)),
         sslclientcert := Some (client_cert_path (ssl_configuration c)),
         sslclientkey := Some (client_key_path (ssl_configuration c)),
         seen := True\<rparr>)"

subsection \<open>Emitting the signal\<close>

lemma emit_returns: "fst (emit hs c calls) = Inr () \<longleftrightarrow> (\<forall>h\<in>set hs. h c = None)"
  by (induction hs arbitrary: calls) (auto split: option.splits)

lemma emit_raises: "fst (emit hs c calls) = Inl e \<Longrightarrow> \<exists>h\<in>set hs. h c = Some e"
  by (induction hs arbitrary: calls) (auto split: option.splits)

lemma emit_all_called:
  "\<forall>h\<in>set hs. h c = None \<Longrightarrow> snd (emit hs c calls) = calls @ replicate (length hs) c"
  by (induction hs arbitrary: calls) (simp_all add: replicate_app_Cons_same)

lemma emit_first_raises:
  assumes "\<forall>g\<in>set hs1. g c = None" and "h c = Some e"
  shows "emit (hs1 @ h # hs2) c calls = (Inl e, calls @ replicate (Suc (length hs1)) c)"
  using assms by (induction hs1 arbitrary: calls) (simp_all add: replicate_app_Cons_same)

text \<open>
  The candidates that the claim names invalid, in its words: the type is not one of the
  three url types, or the proxy is a non-empty string that is not a well-formed proxy
  url. These are the candidates that the validation rejects; for the others the call
  stores the candidate and emits the signal.
\<close>

abbreviation invalid_candidate :: "(string \<Rightarrow> string option) \<Rightarrow> RepoConfigurationData \<Rightarrow> bool" where
  "invalid_candidate proxy_error c \<equiv>
     type c \<notin> {URL_TYPE_BASEURL, URL_TYPE_MIRRORLIST, URL_TYPE_METALINK}
     \<or> (\<exists>s. proxy c = Some s \<and> s \<noteq> [] \<and> proxy_error s \<noteq> None)"

lemma set_repo_configuration_rejects:
  assumes "invalid_candidate proxy_error c"
  shows "(\<exists>m. fst (set_repo_configuration proxy_error self c) = Inl (InvalidValueError m))
     \<and> snd (set_repo_configuration proxy_error self c) = self"
  using assms
  by (auto simp: set_repo_configuration_def validate_url_def validate_proxy_def URL_TYPES_def
      split: option.splits)

lemma set_repo_configuration_accepts:
  assumes "\<not> invalid_candidate proxy_error c"
  shows "set_repo_configuration proxy_error self c =
     (fst (emit (repo_configuration_changed self) c (handler_calls self)),
      self\<lparr>repo_configuration := c,
        handler_calls := snd (emit (repo_configuration_changed self) c (handler_calls self))\<rparr>)"
  using assms
  by (auto simp: set_repo_configuration_def validate_url_def validate_proxy_def URL_TYPES_def
      Let_def split: option.splits)

lemma set_repo_configuration_stored:
  assumes "fst (set_repo_configuration proxy_error self c) = Inr ()"
  shows "repo_configuration (snd (set_repo_configuration proxy_error self c)) = c"
proof (cases "invalid_candidate proxy_error c")
  case True
  from set_repo_configuration_rejects [OF True, of self] assms
  show ?thesis by auto
next
  case False
  then show ?thesis by (simp add: set_repo_configuration_accepts)
qed

subsection \<open>Examples\<close>

definition example_proxy_error :: "string \<Rightarrow> string option" where
  "example_proxy_error s = (if s = ''not a url'' then Some ''malformed url'' else None)"

text \<open>
  Three handlers: one that returns for every configuration, one that raises an
  \<^verbatim>\<open>InvalidValueError\<close> for a configuration with no url, and one that always raises an
  exception of another class.
\<close>

definition example_listener :: handler where
  "example_listener c = None"

definition example_forward :: handler where
  "example_forward c = (if url c = [] then Some (InvalidValueError ''The url is empty'') else None)"

definition example_broken :: handler where
  "example_broken c = Some (OtherError ''RuntimeError'')"

definition example_source :: URLSourceModule where
  "example_source =
     \<lparr>repo_configuration = example_repo, repo_configuration_changed = [example_listener],
      handler_calls = []\<rparr>"

definition example_watched_source :: URLSourceModule where
  "example_watched_source =
     \<lparr>repo_configuration = example_repo,
      repo_configuration_changed = [example_listener, example_forward, example_listener],
      handler_calls = []\<rparr>"

definition example_broken_source :: URLSourceModule where
  "example_broken_source =
     \<lparr>repo_configuration = example_repo, repo_configuration_changed = [example_broken],
      handler_calls = []\<rparr>"

definition example_fresh :: RepoConfigurationData where
  "example_fresh =
     \<lparr>name = '''', url = '''', type = URL_TYPE_BASEURL, origin = ''USER'',
      enabled = True, installation_enabled = False, proxy = Some '''',
      ssl_verification_enabled = True,
      ssl_configuration = \<lparr>ca_cert_path = '''', client_cert_path = '''', client_key_path = ''''\<rparr>\<rparr>"

definition example_data :: url_data where
  "example_data =
     \<lparr>url_ks = None, mirrorlist = None, metalink = None, proxy_ks = None, noverifyssl = False,
      sslcacert = None, sslclientcert = None, sslclientkey = None, seen = False\<rparr>"

definition example_mirror :: RepoConfigurationData where
  "example_mirror =
     example_fresh\<lparr>url := ''http://mirrors/list'', type := URL_TYPE_MIRRORLIST,
       proxy := Some ''http://proxy:3128'', ssl_verification_enabled := False,
       ssl_configuration :=
         \<lparr>ca_cert_path = ''/etc/ca.pem'', client_cert_path = '''', client_key_path = ''''\<rparr>\<rparr>"

definition example_mirror_source :: URLSourceModule where
  "example_mirror_source =
     \<lparr>repo_configuration = example_mirror, repo_configuration_changed = [example_listener],
      handler_calls = [example_mirror]\<rparr>"

text \<open>A mirror list configuration with no url; the proxy is \<^verbatim>\<open>None\<close>.\<close>

definition example_empty_mirror :: RepoConfigurationData where
  "example_empty_mirror = example_fresh\<lparr>type := URL_TYPE_MIRRORLIST, proxy := None\<rparr>"

definition example_empty_mirror_source :: URLSourceModule where
  "example_empty_mirror_source =
     \<lparr>repo_configuration = example_empty_mirror, repo_configuration_changed = [example_listener],
      handler_calls = [example_empty_mirror]\<rparr>"

subsection \<open>C8: setting the configuration\<close>

text \<open>
  C8 (amended). When the type of the candidate is not one of BASEURL, MIRRORLIST and
  METALINK, or its proxy is a non-empty string that is not a well-formed proxy url,
  \<^verbatim>\<open>set_repo_configuration\<close> fails with an \<^verbatim>\<open>InvalidValueError\<close> and the module is unchanged:
  the prior configuration is stored and no handler is called. Otherwise the candidate is
  stored, and the call returns exactly when no handler raises on the candidate; when
  handlers return up to one that raises, the call fails with the exception of that
  handler, after the calls of the handlers up to it. So when no handler raises on the
  candidate, the call fails exactly when the type or the proxy is invalid, a failure
  leaves the module unchanged, and a call that returns has stored the candidate. A call
  that returns has stored the candidate in every case.
\<close>

theorem set_repo_configuration_validates:
  "(invalid_candidate proxy_error c \<longrightarrow>
      (\<exists>m. fst (set_repo_configuration proxy_error self c) = Inl (InvalidValueError m))
      \<and> snd (set_repo_configuration proxy_error self c) = self)
   \<and> (\<not> invalid_candidate proxy_error c \<longrightarrow>
      repo_configuration (snd (set_repo_configuration proxy_error self c)) = c
      \<and> repo_configuration_changed (snd (set_repo_configuration proxy_error self c)) =
          repo_configuration_changed self
      \<and> (fst (set_repo_configuration proxy_error self c) = Inr () \<longleftrightarrow>
          (\<forall>h\<in>set (repo_configuration_changed self). h c = None))
      \<and> (repo_configuration_changed self = hs1 @ h # hs2 \<and> (\<forall>g\<in>set hs1. g c = None)
          \<and> h c = Some e \<longrightarrow>
          fst (set_repo_configuration proxy_error self c) = Inl e
          \<and> handler_calls (snd (set_repo_configuration proxy_error self c)) =
              handler_calls self @ replicate (Suc (length hs1)) c))
   \<and> ((\<forall>h\<in>set (repo_configuration_changed self). h c = None) \<longrightarrow>
      ((\<exists>e. fst (set_repo_configuration proxy_error self c) = Inl e) \<longleftrightarrow>
         invalid_candidate proxy_error c)
      \<and> ((\<exists>e. fst (set_repo_configuration proxy_error self c) = Inl e) \<longrightarrow>
         snd (set_repo_configuration proxy_error self c) = self)
      \<and> (\<not> invalid_candidate proxy_error c \<longrightarrow>
         handler_calls (snd (set_repo_configuration proxy_error self c)) =
           handler_calls self @ replicate (length (repo_configuration_changed self)) c))
   \<and> (fst (set_repo_configuration proxy_error self c) = Inr () \<longrightarrow>
      repo_configuration (snd (set_repo_configuration proxy_error self c)) = c)"
proof (cases "invalid_candidate proxy_error c")
  case True
  from set_repo_configuration_rejects [OF True, of self]
  show ?thesis using True by auto
next
  case False
  note accepted = set_repo_configuration_accepts [OF False, of self]
  have returns: "fst (set_repo_configuration proxy_error self c) = Inr () \<longleftrightarrow>
      (\<forall>h\<in>set (repo_configuration_changed self). h c = None)"
    by (simp add: accepted emit_returns)
  have first: "fst (set_repo_configuration proxy_error self c) = Inl e
      \<and> handler_calls (snd (set_repo_configuration proxy_error self c)) =
          handler_calls self @ replicate (Suc (length hs1)) c"
    if "repo_configuration_changed self = hs1 @ h # hs2 \<and> (\<forall>g\<in>set hs1. g c = None)
      \<and> h c = Some e"
    using that emit_first_raises [of hs1 c h e hs2 "handler_calls self"]
    by (simp add: accepted)
  have all_called: "handler_calls (snd (set_repo_configuration proxy_error self c)) =
      handler_calls self @ replicate (length (repo_configuration_changed self)) c"
    if "\<forall>h\<in>set (repo_configuration_changed self). h c = None"
    using that by (simp add: accepted emit_all_called)
  have stored: "repo_configuration (snd (set_repo_configuration proxy_error self c)) = c"
    and handlers: "repo_configuration_changed (snd (set_repo_configuration proxy_error self c)) =
      repo_configuration_changed self"
    by (simp_all add: accepted)
  show ?thesis
    using False returns first all_called stored handlers by auto
qed

text \<open>
  The module \<open>example_watched_source\<close> has three handlers. A candidate with a malformed
  proxy is rejected and no handler is called; a candidate that every handler accepts is
  stored and every handler is called; for a candidate with no url the second handler
  raises, so the third handler is not called.
\<close>

theorem set_repo_configuration_validates_witness:
  "proxy (example_repo\<lparr>proxy := Some ''not a url''\<rparr>) = Some ''not a url''
   \<and> example_proxy_error ''not a url'' \<noteq> None
   \<and> (\<exists>m. fst (set_repo_configuration example_proxy_error example_watched_source
         (example_repo\<lparr>proxy := Some ''not a url''\<rparr>)) = Inl (InvalidValueError m))
   \<and> snd (set_repo_configuration example_proxy_error example_watched_source
         (example_repo\<lparr>proxy := Some ''not a url''\<rparr>)) = example_watched_source
   \<and> repo_configuration (snd (set_repo_configuration example_proxy_error example_watched_source
         (example_repo\<lparr>proxy := Some ''not a url''\<rparr>))) = example_repo
   \<and> fst (set_repo_configuration example_proxy_error example_watched_source
         (example_repo\<lparr>proxy := Some ''http://proxy:3128'', url := ''http://b''\<rparr>)) = Inr ()
   \<and> snd (set_repo_configuration example_proxy_error example_watched_source
         (example_repo\<lparr>proxy := Some ''http://proxy:3128'', url := ''http://b''\<rparr>)) =
       \<lparr>repo_configuration = example_repo\<lparr>proxy := Some ''http://proxy:3128'', url := ''http://b''\<rparr>,
        repo_configuration_changed = [example_listener, example_forward, example_listener],
        handler_calls =
          [example_repo\<lparr>proxy := Some ''http://proxy:3128'', url := ''http://b''\<rparr>,
           example_repo\<lparr>proxy := Some ''http://proxy:3128'', url := ''http://b''\<rparr>,
           example_repo\<lparr>proxy := Some ''http://proxy:3128'', url := ''http://b''\<rparr>]\<rparr>
   \<and> example_forward example_fresh = Some (InvalidValueError ''The url is empty'')
   \<and> snd (set_repo_configuration example_proxy_error example_watched_source example_fresh) =
       \<lparr>repo_configuration = example_fresh,
        repo_configuration_changed = [example_listener, example_forward, example_listener],
        handler_calls = [example_fresh, example_fresh]\<rparr>"
proof -
  let ?bad = "example_repo\<lparr>proxy := Some ''not a url''\<rparr>"
  let ?good = "example_repo\<lparr>proxy := Some ''http://proxy:3128'', url := ''http://b''\<rparr>"
  have bad: "proxy ?bad = Some ''not a url'' \<and> example_proxy_error ''not a url'' \<noteq> None"
    by (simp add: example_proxy_error_def)
  have good: "\<not> invalid_candidate example_proxy_error ?good"
    by (simp add: example_repo_def example_proxy_error_def URL_TYPE_BASEURL_def)
  have fresh: "\<not> invalid_candidate example_proxy_error example_fresh"
    by (simp add: example_fresh_def)
  have handlers: "repo_configuration_changed example_watched_source =
      [example_listener] @ example_forward # [example_listener]"
    "repo_configuration_changed example_watched_source =
      [example_listener, example_forward, example_listener]"
    "handler_calls example_watched_source = []"
    "repo_configuration example_watched_source = example_repo"
    by (simp_all add: example_watched_source_def)
  have calls: "example_listener ?good = None" "example_forward ?good = None"
    "example_listener example_fresh = None"
    "example_forward example_fresh = Some (InvalidValueError ''The url is empty'')"
    by (simp_all add: example_listener_def example_forward_def example_fresh_def)
  have rejected: "(\<exists>m. fst (set_repo_configuration example_proxy_error example_watched_source
        ?bad) = Inl (InvalidValueError m))
      \<and> snd (set_repo_configuration example_proxy_error example_watched_source ?bad) =
        example_watched_source"
    using set_repo_configuration_validates [where proxy_error = example_proxy_error
        and c = ?bad and self = example_watched_source]
      bad
    by blast
  have accepted: "fst (set_repo_configuration example_proxy_error example_watched_source ?good) =
        Inr ()
      \<and> repo_configuration (snd (set_repo_configuration example_proxy_error
          example_watched_source ?good)) = ?good
      \<and> repo_configuration_changed (snd (set_repo_configuration example_proxy_error
          example_watched_source ?good)) = [example_listener, example_forward, example_listener]
      \<and> handler_calls (snd (set_repo_configuration example_proxy_error
          example_watched_source ?good)) = [?good, ?good, ?good]"
    using set_repo_configuration_validates [where proxy_error = example_proxy_error
        and c = ?good and self = example_watched_source]
      good calls handlers
    by (simp add: numeral_3_eq_3)
  have raised: "repo_configuration (snd (set_repo_configuration example_proxy_error
          example_watched_source example_fresh)) = example_fresh
      \<and> repo_configuration_changed (snd (set_repo_configuration example_proxy_error
          example_watched_source example_fresh)) =
          [example_listener, example_forward, example_listener]
      \<and> handler_calls (snd (set_repo_configuration example_proxy_error
          example_watched_source example_fresh)) = [example_fresh, example_fresh]"
    using set_repo_configuration_validates [where proxy_error = example_proxy_error
        and c = example_fresh and self = example_watched_source and ?hs1.0 = "[example_listener]"
        and h = example_forward and ?hs2.0 = "[example_listener]"
        and e = "InvalidValueError ''The url is empty''"]
      fresh calls handlers
    by simp
  show ?thesis
    using bad rejected accepted raised calls(4) handlers(4)
    by (auto intro: URLSourceModule.equality)
qed

text \<open>
  The claim as stated: the call fails with an \<^verbatim>\<open>InvalidValueError\<close> only for a candidate
  with an invalid type or proxy, and a failure leaves the stored configuration unchanged.
  The candidate \<open>example_fresh\<close> has the type BASEURL and an empty proxy. The second
  handler of \<open>example_watched_source\<close> raises an \<^verbatim>\<open>InvalidValueError\<close> for it, and the
  handler of \<open>example_broken_source\<close> raises an exception of another class: both calls
  fail, and the stored configuration is the candidate, not the prior one.
\<close>

theorem set_repo_configuration_fails_after_storing:
  "type example_fresh = URL_TYPE_BASEURL \<and> proxy example_fresh = Some []
   \<and> repo_configuration example_watched_source = example_repo
   \<and> fst (set_repo_configuration example_proxy_error example_watched_source example_fresh) =
       Inl (InvalidValueError ''The url is empty'')
   \<and> repo_configuration
       (snd (set_repo_configuration example_proxy_error example_watched_source example_fresh)) =
       example_fresh
   \<and> repo_configuration example_broken_source = example_repo
   \<and> fst (set_repo_configuration example_proxy_error example_broken_source example_fresh) =
       Inl (OtherError ''RuntimeError'')
   \<and> repo_configuration
       (snd (set_repo_configuration example_proxy_error example_broken_source example_fresh)) =
       example_fresh
   \<and> example_fresh \<noteq> example_repo"
proof -
  have "url example_fresh \<noteq> url example_repo"
    by (simp add: example_fresh_def example_repo_def)
  then have different: "example_fresh \<noteq> example_repo"
    by auto
  have valid: "\<not> invalid_candidate example_proxy_error example_fresh"
    and fields: "type example_fresh = URL_TYPE_BASEURL \<and> proxy example_fresh = Some []"
    by (simp_all add: example_fresh_def)
  have calls: "example_listener example_fresh = None"
    "example_forward example_fresh = Some (InvalidValueError ''The url is empty'')"
    "example_broken example_fresh = Some (OtherError ''RuntimeError'')"
    by (simp_all add: example_listener_def example_forward_def example_broken_def
        example_fresh_def)
  show ?thesis
    using different fields calls
    by (simp add: set_repo_configuration_accepts [OF valid] example_watched_source_def
        example_broken_source_def)
qed

subsection \<open>C9: export and import\<close>

lemma url_types_distinct:
  "URL_TYPE_BASEURL \<noteq> URL_TYPE_MIRRORLIST" "URL_TYPE_BASEURL \<noteq> URL_TYPE_METALINK"
  "URL_TYPE_MIRRORLIST \<noteq> URL_TYPE_METALINK"
  by (simp_all add: URL_TYPE_BASEURL_def URL_TYPE_MIRRORLIST_def URL_TYPE_METALINK_def)

lemma nonempty_Some: "u \<noteq> [] \<Longrightarrow> nonempty (Some u) = Some u"
  by (simp add: nonempty_def)

lemma or_empty_Some: "or_empty (Some s) = s"
  by (simp add: or_empty_def nonempty_def)

text \<open>
  C9 (amended). For a stored configuration of type BASEURL, MIRRORLIST or METALINK whose
  proxy passes the validation and whose url is not empty: the export into a kickstart
  record with no url, mirrorlist or metalink, and the import of that record into any
  module, stores a configuration with the same url, type, proxy, ssl verification flag
  and ssl paths. The import passes the validation: it returns exactly when no handler of
  the importing module raises on the stored configuration, and it fails only with the
  exception of such a handler.
\<close>

theorem kickstart_round_trip:
  assumes "type (repo_configuration self) \<in> set URL_TYPES"
    and "validate_proxy proxy_error (proxy (repo_configuration self)) = None"
    and "url (repo_configuration self) \<noteq> []"
    and "url_ks data = None \<and> mirrorlist data = None \<and> metalink data = None"
  shows "(fst (process_kickstart proxy_error fresh other (setup_kickstart self data)) = Inr () \<longleftrightarrow>
        (\<forall>h\<in>set (repo_configuration_changed other).
           h (repo_configuration
             (snd (process_kickstart proxy_error fresh other (setup_kickstart self data)))) = None))
     \<and> (fst (process_kickstart proxy_error fresh other (setup_kickstart self data)) = Inl e \<longrightarrow>
        (\<exists>h\<in>set (repo_configuration_changed other).
           h (repo_configuration
             (snd (process_kickstart proxy_error fresh other (setup_kickstart self data)))) =
           Some e))
     \<and> url (repo_configuration
          (snd (process_kickstart proxy_error fresh other (setup_kickstart self data)))) =
        url (repo_configuration self)
     \<and> type (repo_configuration
          (snd (process_kickstart proxy_error fresh other (setup_kickstart self data)))) =
        type (repo_configuration self)
     \<and> proxy (repo_configuration
          (snd (process_kickstart proxy_error fresh other (setup_kickstart self data)))) =
        proxy (repo_configuration self)
     \<and> ssl_verification_enabled (repo_configuration
          (snd (process_kickstart proxy_error fresh other (setup_kickstart self data)))) =
        ssl_verification_enabled (repo_configuration self)
     \<and> ssl_configuration (repo_configuration
          (snd (process_kickstart proxy_error fresh other (setup_kickstart self data)))) =
        ssl_configuration (repo_configuration self)"
proof -
  let ?c = "repo_configuration self"
  let ?r = "fresh\<lparr>url := url ?c, type := type ?c, proxy := proxy ?c,
      ssl_verification_enabled := ssl_verification_enabled ?c,
      ssl_configuration := (ssl_configuration fresh)
        \<lparr>ca_cert_path := ca_cert_path (ssl_configuration ?c),
         client_cert_path := client_cert_path (ssl_configuration ?c),
         client_key_path := client_key_path (ssl_configuration ?c)\<rparr>\<rparr>"
  from assms(1) consider "type ?c = URL_TYPE_BASEURL" | "type ?c = URL_TYPE_MIRRORLIST"
    | "type ?c = URL_TYPE_METALINK"
    by (auto simp: URL_TYPES_def)
  then have import: "process_kickstart proxy_error fresh other (setup_kickstart self data) =
      set_repo_configuration proxy_error other ?r"
    using assms(3,4)
    by cases
      (simp_all add: process_kickstart_def setup_kickstart_def Let_def nonempty_Some
        or_empty_Some url_types_distinct nonempty_def)
  have accepted: "set_repo_configuration proxy_error other ?r =
      (fst (emit (repo_configuration_changed other) ?r (handler_calls other)),
       other\<lparr>repo_configuration := ?r,
         handler_calls := snd (emit (repo_configuration_changed other) ?r (handler_calls other))\<rparr>)"
    using assms(1,2) by (simp add: set_repo_configuration_def validate_url_def Let_def)
  have raised: "\<exists>h\<in>set (repo_configuration_changed other). h ?r = Some e"
    if "fst (emit (repo_configuration_changed other) ?r (handler_calls other)) = Inl e"
    using that by (rule emit_raises)
  show ?thesis
    unfolding import accepted using raised by (simp add: emit_returns)
qed

text \<open>
  The module \<open>example_mirror_source\<close> is the result of storing a mirror list
  configuration. The import into \<open>example_watched_source\<close>, whose three handlers return
  for it, returns and stores an equal configuration.
\<close>

theorem kickstart_round_trip_witness:
  "set_repo_configuration example_proxy_error example_source example_mirror =
     (Inr (), example_mirror_source)
   \<and> type (repo_configuration example_mirror_source) = URL_TYPE_MIRRORLIST
   \<and> validate_proxy example_proxy_error (proxy (repo_configuration example_mirror_source)) = None
   \<and> url (repo_configuration example_mirror_source) = ''http://mirrors/list''
   \<and> url_ks example_data = None \<and> mirrorlist example_data = None
   \<and> metalink example_data = None
   \<and> mirrorlist (setup_kickstart example_mirror_source example_data) =
       Some ''http://mirrors/list''
   \<and> fst (process_kickstart example_proxy_error example_fresh example_watched_source
         (setup_kickstart example_mirror_source example_data)) = Inr ()
   \<and> repo_configuration (snd (process_kickstart example_proxy_error example_fresh
         example_watched_source (setup_kickstart example_mirror_source example_data))) =
       example_mirror"
proof -
  have stored: "set_repo_configuration example_proxy_error example_source example_mirror =
      (Inr (), example_mirror_source)"
    by (simp add: set_repo_configuration_def validate_url_def validate_proxy_def URL_TYPES_def
        example_mirror_def example_mirror_source_def example_source_def example_fresh_def
        example_proxy_error_def example_listener_def Let_def)
  have t: "type (repo_configuration example_mirror_source) \<in> set URL_TYPES"
    by (simp add: example_mirror_source_def example_mirror_def URL_TYPES_def)
  have p: "validate_proxy example_proxy_error (proxy (repo_configuration example_mirror_source)) =
      None"
    by (simp add: example_mirror_source_def example_mirror_def validate_proxy_def
        example_proxy_error_def)
  have u: "url (repo_configuration example_mirror_source) \<noteq> []"
    by (simp add: example_mirror_source_def example_mirror_def)
  have d: "url_ks example_data = None \<and> mirrorlist example_data = None
      \<and> metalink example_data = None"
    by (simp add: example_data_def)
  have exported: "mirrorlist (setup_kickstart example_mirror_source example_data) =
      Some ''http://mirrors/list''"
    by (simp add: setup_kickstart_def example_mirror_source_def example_mirror_def
        example_fresh_def Let_def URL_TYPE_BASEURL_def URL_TYPE_MIRRORLIST_def
        URL_TYPE_METALINK_def)
  have rest: "name (repo_configuration (snd (process_kickstart example_proxy_error example_fresh
        example_watched_source (setup_kickstart example_mirror_source example_data)))) = []
     \<and> origin (repo_configuration (snd (process_kickstart example_proxy_error example_fresh
        example_watched_source (setup_kickstart example_mirror_source example_data)))) = ''USER''
     \<and> enabled (repo_configuration (snd (process_kickstart example_proxy_error example_fresh
        example_watched_source (setup_kickstart example_mirror_source example_data))))
     \<and> \<not> installation_enabled (repo_configuration (snd (process_kickstart example_proxy_error
        example_fresh example_watched_source
        (setup_kickstart example_mirror_source example_data))))"
    by (simp add: process_kickstart_def setup_kickstart_def set_repo_configuration_def
        validate_url_def validate_proxy_def URL_TYPES_def example_mirror_source_def
        example_mirror_def example_fresh_def example_data_def example_proxy_error_def
        nonempty_def or_empty_def Let_def URL_TYPE_BASEURL_def URL_TYPE_MIRRORLIST_def
        URL_TYPE_METALINK_def)
  have fields: "type example_mirror = URL_TYPE_MIRRORLIST
     \<and> url example_mirror = ''http://mirrors/list''
     \<and> name example_mirror = [] \<and> origin example_mirror = ''USER'' \<and> enabled example_mirror
     \<and> \<not> installation_enabled example_mirror"
    by (simp add: example_mirror_def example_fresh_def)
  have same: "repo_configuration (snd (process_kickstart example_proxy_error example_fresh
        example_watched_source (setup_kickstart example_mirror_source example_data))) =
      example_mirror"
    using kickstart_round_trip [OF t p u d, of example_fresh example_watched_source] rest fields
    by (intro RepoConfigurationData.equality) (simp_all add: example_mirror_source_def)
  have handlers: "\<forall>h\<in>set (repo_configuration_changed example_watched_source).
      h example_mirror = None"
    by (simp add: example_watched_source_def example_listener_def example_forward_def
        example_mirror_def)
  show ?thesis
    using kickstart_round_trip [OF t p u d, of example_fresh example_watched_source]
      stored p d exported same fields handlers
    by (simp add: example_mirror_source_def)
qed

text \<open>
  The claim as stated holds for every stored configuration of the three types. The mirror
  list configuration with an empty url is one: \<^verbatim>\<open>set_repo_configuration\<close> accepts it, and
  \<^verbatim>\<open>setup_kickstart\<close> exports \<^verbatim>\<open>mirrorlist = ""\<close>. For \<^verbatim>\<open>process_kickstart\<close> the empty
  string is false, so no field gives a url and the type stays the type of a new record.
\<close>

theorem kickstart_round_trip_loses_type:
  "set_repo_configuration example_proxy_error example_source example_empty_mirror =
     (Inr (), example_empty_mirror_source)
   \<and> type (repo_configuration example_empty_mirror_source) = URL_TYPE_MIRRORLIST
   \<and> mirrorlist (setup_kickstart example_empty_mirror_source example_data) = Some []
   \<and> fst (process_kickstart example_proxy_error example_fresh example_source
         (setup_kickstart example_empty_mirror_source example_data)) = Inr ()
   \<and> type (repo_configuration (snd (process_kickstart example_proxy_error example_fresh
         example_source (setup_kickstart example_empty_mirror_source example_data)))) =
       URL_TYPE_BASEURL
   \<and> URL_TYPE_BASEURL \<noteq> URL_TYPE_MIRRORLIST"
  by (simp add: process_kickstart_def setup_kickstart_def set_repo_configuration_def
      validate_url_def validate_proxy_def URL_TYPES_def example_empty_mirror_source_def
      example_empty_mirror_def example_fresh_def example_data_def example_source_def
      example_listener_def nonempty_def or_empty_def Let_def URL_TYPE_BASEURL_def
      URL_TYPE_MIRRORLIST_def URL_TYPE_METALINK_def)

text \<open>
  The loss does not depend on the defaults of a new record: whatever the type exported,
  the import of a configuration with an empty url stores the url and the type of the new
  record, and the types MIRRORLIST and METALINK cannot both be that type.
\<close>

lemma kickstart_round_trip_empty_url:
  assumes "url (repo_configuration self) = []"
    and "url_ks data = None \<and> mirrorlist data = None \<and> metalink data = None"
    and "fst (process_kickstart proxy_error fresh other (setup_kickstart self data)) = Inr ()"
  shows "type (repo_configuration
          (snd (process_kickstart proxy_error fresh other (setup_kickstart self data)))) =
        type fresh
     \<and> url (repo_configuration
          (snd (process_kickstart proxy_error fresh other (setup_kickstart self data)))) =
        url fresh"
proof -
  have exported: "nonempty (url_ks (setup_kickstart self data)) = None
      \<and> nonempty (mirrorlist (setup_kickstart self data)) = None
      \<and> nonempty (metalink (setup_kickstart self data)) = None"
    using assms(1,2) by (simp add: setup_kickstart_def Let_def nonempty_def)
  obtain c where import: "process_kickstart proxy_error fresh other (setup_kickstart self data) =
      set_repo_configuration proxy_error other c" and c: "type c = type fresh \<and> url c = url fresh"
    using exported by (simp add: process_kickstart_def Let_def)
  from assms(3) have "repo_configuration
      (snd (process_kickstart proxy_error fresh other (setup_kickstart self data))) = c"
    unfolding import by (rule set_repo_configuration_stored)
  with c show ?thesis by simp
qed

section \<open>Input checks\<close>

text \<open>
  \<^verbatim>\<open>InputCheck\<close> and \<^verbatim>\<open>InputCheckHandler\<close> of \<^verbatim>\<open>helpers.py\<close>. A check status is the
  object that the check function returns: \<^verbatim>\<open>None\<close> for a passed check, the empty string
  for a silent failure, another string for a failure with a message.
\<close>

type_synonym status = "string option"

definition CHECK_OK :: status where
  "CHECK_OK = None"

definition CHECK_SILENT :: status where
  "CHECK_SILENT = Some ''''"

text \<open>
  The check function is called with the check itself and reads its attributes: they are
  the first record, which the record of the check extends with the function. The
  attribute \<^verbatim>\<open>_parent\<close> is the handler that holds the check.
\<close>

record ('i, 'd) InputCheck_attributes =
  input_obj :: 'i
  data :: "'d option"
  check_status :: status
  enabled_ic :: bool

record ('i, 'd) InputCheck = "('i, 'd) InputCheck_attributes" +
  run_check :: "('i, 'd) InputCheck_attributes \<Rightarrow> status"

definition InputCheck_init ::
  "'i \<Rightarrow> (('i, 'd) InputCheck_attributes \<Rightarrow> status) \<Rightarrow> 'd option \<Rightarrow> ('i, 'd) InputCheck" where
  "InputCheck_init i f d =
     \<lparr>input_obj = i, data = d, check_status = None, enabled_ic = True, run_check = f\<rparr>"

text \<open>
  The checks are objects: the handler's list holds references to them, and
  \<^verbatim>\<open>add_check\<close> returns the reference to the check it creates. The state is the list,
  the objects with their allocation counter, and the calls of the abstract method
  \<^verbatim>\<open>set_status\<close> in order.
\<close>

record ('i, 'd) InputCheckHandler =
  check_list :: "addr list"
  checks :: "addr \<Rightarrow> ('i, 'd) InputCheck"
  next_check :: addr
  set_status_calls :: "addr list"

definition add_check ::
  "('i, 'd) InputCheckHandler \<Rightarrow> 'i \<Rightarrow> (('i, 'd) InputCheck_attributes \<Rightarrow> status) \<Rightarrow> 'd option \<Rightarrow>
   addr \<times> ('i, 'd) InputCheckHandler" where
  "add_check self i f d =
     (let checkRef = next_check self
      in (checkRef,
          self\<lparr>checks := (checks self)(checkRef := InputCheck_init i f d),
            next_check := Suc checkRef,
            check_list := check_list self @ [checkRef]\<rparr>))"

definition update_check_status :: "('i, 'd) InputCheckHandler \<Rightarrow> addr \<Rightarrow> ('i, 'd) InputCheckHandler" where
  "update_check_status self c =
     (if \<not> enabled_ic (checks self c) then self
      else self
        \<lparr>checks := (checks self)
           (c := (checks self c)
              \<lparr>check_status :=
                 run_check (checks self c) (InputCheck_attributes.truncate (checks self c))\<rparr>),
         set_status_calls := set_status_calls self @ [c]\<rparr>)"

definition set_enabled :: "('i, 'd) InputCheckHandler \<Rightarrow> addr \<Rightarrow> bool \<Rightarrow> ('i, 'd) InputCheckHandler" where
  "set_enabled self c v = self\<lparr>checks := (checks self)(c := (checks self c)\<lparr>enabled_ic := v\<rparr>)\<rparr>"

definition failed_checks :: "('i, 'd) InputCheckHandler \<Rightarrow> addr list" where
  "failed_checks self =
     [c \<leftarrow> check_list self.
        enabled_ic (checks self c) \<and> check_status (checks self c) \<noteq> CHECK_OK]"

text \<open>The calls that a screen makes on a handler and its checks.\<close>

datatype ('i, 'd) call =
  Add_check 'i "('i, 'd) InputCheck_attributes \<Rightarrow> status" "'d option"
  | Set_enabled addr bool
  | Update_check_status addr

fun perform :: "('i, 'd) InputCheckHandler \<Rightarrow> ('i, 'd) call \<Rightarrow> ('i, 'd) InputCheckHandler" where
  "perform self (Add_check i f d) = snd (add_check self i f d)"
| "perform self (Set_enabled c v) = set_enabled self c v"
| "perform self (Update_check_status c) = update_check_status self c"

lemma perform_next_check: "next_check self \<le> next_check (perform self a)"
  by (cases a) (simp_all add: add_check_def set_enabled_def update_check_status_def Let_def)

lemma perform_check_status:
  assumes "c < next_check self" and "a \<noteq> Update_check_status c"
  shows "check_status (checks (perform self a) c) = check_status (checks self c)"
  using assms
  by (cases a) (auto simp: add_check_def set_enabled_def update_check_status_def Let_def)

lemma never_run_check_status:
  assumes "c < next_check self" and "Update_check_status c \<notin> set calls"
  shows "check_status (checks (foldl perform self calls) c) = check_status (checks self c)"
  using assms
proof (induction calls arbitrary: self)
  case Nil
  show ?case by simp
next
  case (Cons a calls)
  have "c < next_check (perform self a)"
    using Cons.prems(1) perform_next_check [of self a] by simp
  moreover have "Update_check_status c \<notin> set calls" and "a \<noteq> Update_check_status c"
    using Cons.prems(2) by auto
  ultimately show ?case
    using Cons.IH [of "perform self a"] perform_check_status [of c self a] Cons.prems(1)
    by simp
qed

subsection \<open>Example handler\<close>

definition example_not_empty :: "(string, unit) InputCheck_attributes \<Rightarrow> status" where
  "example_not_empty c = (if input_obj c = [] then Some ''empty'' else None)"

definition example_handler :: "(string, unit) InputCheckHandler" where
  "example_handler =
     \<lparr>check_list = [], checks = (\<lambda>_. InputCheck_init [] (\<lambda>_. None) None), next_check = 0,
      set_status_calls = []\<rparr>"


definition example_handler1 :: "(string, unit) InputCheckHandler" where
  "example_handler1 = snd (add_check example_handler [] example_not_empty None)"

subsection \<open>C10: the failed checks\<close>

text \<open>
  C10. \<^verbatim>\<open>failed_checks\<close> yields a check exactly when it is in the handler's list, is
  enabled and has a status other than \<^verbatim>\<open>CHECK_OK\<close>. The check that \<^verbatim>\<open>add_check\<close>
  creates is in the list with the status \<^verbatim>\<open>CHECK_OK\<close>, and after any calls among which
  there is no \<^verbatim>\<open>update_check_status\<close> of this check it is not among the failed checks. A
  disabled check is not among the failed checks whatever its status, and
  \<^verbatim>\<open>update_check_status\<close> does not run it.
\<close>

theorem failed_checks_enabled_not_ok:
  "(c \<in> set (failed_checks self) \<longleftrightarrow>
      c \<in> set (check_list self) \<and> enabled_ic (checks self c)
      \<and> check_status (checks self c) \<noteq> CHECK_OK)
   \<and> check_status (checks (snd (add_check self i f d)) (fst (add_check self i f d))) = CHECK_OK
   \<and> fst (add_check self i f d) \<in> set (check_list (snd (add_check self i f d)))
   \<and> (Update_check_status (fst (add_check self i f d)) \<notin> set calls \<longrightarrow>
        fst (add_check self i f d) \<notin>
          set (failed_checks (foldl perform (snd (add_check self i f d)) calls)))
   \<and> (\<not> enabled_ic (checks self c) \<longrightarrow>
        c \<notin> set (failed_checks self) \<and> update_check_status self c = self)"
proof (intro conjI impI)
  show "c \<in> set (failed_checks self) \<longleftrightarrow>
      c \<in> set (check_list self) \<and> enabled_ic (checks self c)
      \<and> check_status (checks self c) \<noteq> CHECK_OK"
    by (auto simp: failed_checks_def)
  show new: "check_status (checks (snd (add_check self i f d)) (fst (add_check self i f d))) =
      CHECK_OK"
    by (simp add: add_check_def InputCheck_init_def CHECK_OK_def Let_def)
  show "fst (add_check self i f d) \<in> set (check_list (snd (add_check self i f d)))"
    by (simp add: add_check_def Let_def)
  show "fst (add_check self i f d) \<notin>
      set (failed_checks (foldl perform (snd (add_check self i f d)) calls))"
    if "Update_check_status (fst (add_check self i f d)) \<notin> set calls"
  proof -
    have "fst (add_check self i f d) < next_check (snd (add_check self i f d))"
      by (simp add: add_check_def Let_def)
    from never_run_check_status [OF this that] new
    show ?thesis by (simp add: failed_checks_def)
  qed
  show "c \<notin> set (failed_checks self)" if "\<not> enabled_ic (checks self c)"
    using that by (simp add: failed_checks_def)
  show "update_check_status self c = self" if "\<not> enabled_ic (checks self c)"
    using that by (simp add: update_check_status_def)
qed

theorem failed_checks_enabled_not_ok_witness:
  "fst (add_check example_handler [] example_not_empty None) = 0
   \<and> check_list example_handler1 = [0]
   \<and> failed_checks example_handler1 = []
   \<and> failed_checks (update_check_status example_handler1 0) = [0]
   \<and> check_status (checks (update_check_status example_handler1 0) 0) = Some ''empty''
   \<and> \<not> enabled_ic (checks (set_enabled (update_check_status example_handler1 0) 0 False) 0)
   \<and> check_status (checks (set_enabled (update_check_status example_handler1 0) 0 False) 0) =
       Some ''empty''
   \<and> failed_checks (set_enabled (update_check_status example_handler1 0) 0 False) = []
   \<and> failed_checks (foldl perform example_handler1
         [Set_enabled 0 False, Update_check_status 0, Set_enabled 0 True]) = []"
proof -
  have eval: "fst (add_check example_handler [] example_not_empty None) = 0
     \<and> check_list example_handler1 = [0]
     \<and> failed_checks example_handler1 = []
     \<and> failed_checks (update_check_status example_handler1 0) = [0]
     \<and> check_status (checks (update_check_status example_handler1 0) 0) = Some ''empty''
     \<and> \<not> enabled_ic (checks (set_enabled (update_check_status example_handler1 0) 0 False) 0)
     \<and> check_status (checks (set_enabled (update_check_status example_handler1 0) 0 False) 0) =
         Some ''empty''
     \<and> failed_checks (foldl perform example_handler1
         [Set_enabled 0 False, Update_check_status 0, Set_enabled 0 True]) = []"
    by (simp add: example_handler1_def example_handler_def add_check_def update_check_status_def
        set_enabled_def failed_checks_def InputCheck_init_def example_not_empty_def CHECK_OK_def
        InputCheck_attributes.truncate_def Let_def)
  have "0 \<notin> set (failed_checks (set_enabled (update_check_status example_handler1 0) 0 False))"
    using failed_checks_enabled_not_ok
      [of 0 "set_enabled (update_check_status example_handler1 0) 0 False"] eval
    by blast
  moreover have "set (failed_checks (set_enabled (update_check_status example_handler1 0) 0 False))
      \<subseteq> {0}"
    by (auto simp: failed_checks_def set_enabled_def update_check_status_def
        example_handler1_def example_handler_def add_check_def Let_def)
  ultimately have "failed_checks (set_enabled (update_check_status example_handler1 0) 0 False) = []"
    by (cases "failed_checks (set_enabled (update_check_status example_handler1 0) 0 False)") auto
  with eval show ?thesis by simp
qed

end
